theory Spec2Isabelle
  imports Complex_Main "HOL-Library.AList"
begin

section \<open>JavaScript values\<close>

text \<open>
  A JavaScript number is NaN, an infinity or a finite double; every finite double is a
  rational number, so \<open>Fin r\<close> holds its exact value. Negative zero is not kept apart from
  zero: the code never divides by a zero and compares numbers only with \<open><\<close>, \<open>>\<close> and \<open>===\<close>.
\<close>

datatype jsnum = NaN | NegInf | Fin rat | PosInf

text \<open>
  The values \<open>JSON.parse\<close> returns, \<open>undefined\<close> for a property that is absent, and the
  built-in function of a given name, which reading an inherited property can return.
\<close>

datatype jsval =
    JUndefined
  | JNull
  | JBool bool
  | JNum jsnum
  | JStr string
  | JArr "jsval list"
  | JObj "(string \<times> jsval) list"
  | JFunction string

datatype js_error = SyntaxError | TypeError

text \<open>
  The leaderboard payload at its declared type: \<open>{columns: LeaderboardColumn[], entries:
  LeaderboardEntry[]}\<close>. A name that is missing is \<open>None\<close>; \<open>entry_cells\<close> holds the
  properties of an entry's own other than \<open>name\<close>. What the
  browser finds in an HTML text is one of six outcomes, one for each way the parser leaves
  its first part.
\<close>

record LeaderboardColumn =
  col_name :: "string option"

record LeaderboardEntry =
  entry_name :: "string option"
  entry_cells :: "(string \<times> jsval) list"

datatype leaderboard_props =
    NoLeaderboardDiv
  | NoPropsAttribute
  | PropsSyntaxError
  | PropsNull
  | PropsInvalid
  | PropsData "LeaderboardColumn list" "LeaderboardEntry list"

text \<open>
  The runtime the code calls into. Its functions are parameters of the model, so every
  theorem holds whatever they compute:
  \<^item> \<open>round_to_double r\<close> is the double nearest to the mathematical value \<open>r\<close>, \<open>None\<close> when
    \<open>r\<close> is too large in magnitude and rounds to an infinity;
  \<^item> \<open>Number_toString\<close> is \<open>String(n)\<close> for a number, \<open>Number_toFixed n d\<close> is \<open>n.toFixed(d)\<close>;
  \<^item> \<open>Function_toString name\<close> is \<open>String(f)\<close> for the built-in function \<open>f\<close> of that name;
  \<^item> \<open>JSON_parse\<close> is \<open>JSON.parse\<close>, \<open>None\<close> when it throws a SyntaxError;
  \<^item> \<open>uuidv4 k\<close> is the identifier that the \<open>k\<close>-th call of \<open>uuidv4()\<close> in one parse returns;
  \<^item> \<open>read_leaderboard html\<close> is what \<open>DOMParser\<close>, \<open>querySelector\<close>, \<open>getAttribute\<close> and
    \<open>JSON.parse\<close> find in \<open>html\<close>: no \<open>div\<close> with \<open>data-react-class="Leaderboard"\<close>; no
    \<open>data-react-props\<close> on it, or an empty one; props that are not JSON; the JSON value
    \<open>null\<close>; a value without the arrays \<open>columns\<close> and \<open>entries\<close>; or the payload.
\<close>

record platform =
  round_to_double :: "rat \<Rightarrow> rat option"
  Number_toString :: "jsnum \<Rightarrow> string"
  Number_toFixed :: "jsnum \<Rightarrow> nat \<Rightarrow> string"
  Function_toString :: "string \<Rightarrow> string"
  JSON_parse :: "string \<Rightarrow> jsval option"
  uuidv4 :: "nat \<Rightarrow> string"
  read_leaderboard :: "string \<Rightarrow> leaderboard_props"

definition number_of :: "platform \<Rightarrow> rat \<Rightarrow> jsnum" where
  "number_of P r =
     (case round_to_double P r of
        Some d \<Rightarrow> Fin d
      | None \<Rightarrow> if r < 0 then NegInf else PosInf)"

definition isNaN :: "jsnum \<Rightarrow> bool" where
  "isNaN n = (n = NaN)"

section \<open>Strings\<close>

text \<open>
  A string is a list of characters with codes below 256. White space (for \<open>trim\<close>, for
  \<open>\s\<close> and for the numeric parsers) is then tab, line feed, vertical tab, form feed,
  carriage return, space and no-break space.
\<close>

definition is_ws :: "char \<Rightarrow> bool" where
  "is_ws c = (c \<in> set [CHR 0x09, CHR 0x0A, CHR 0x0B, CHR 0x0C, CHR 0x0D, CHR 0x20, CHR 0xA0])"

definition is_digit :: "char \<Rightarrow> bool" where
  "is_digit c = (c \<in> set ''0123456789'')"

definition digit_val :: "char \<Rightarrow> nat" where
  "digit_val c = of_char c - 48"

definition digits_val :: "string \<Rightarrow> nat" where
  "digits_val ds = foldl (\<lambda>a c. 10 * a + digit_val c) 0 ds"

definition trim :: "string \<Rightarrow> string" where
  "trim s = rev (dropWhile is_ws (rev (dropWhile is_ws s)))"

fun split_on :: "char \<Rightarrow> string \<Rightarrow> string list" where
  "split_on d [] = [[]]"
| "split_on d (c # cs) =
     (if c = d then [] # split_on d cs
      else (case split_on d cs of
              p # ps \<Rightarrow> (c # p) # ps
            | [] \<Rightarrow> [[c]]))"

fun join :: "string \<Rightarrow> string list \<Rightarrow> string" where
  "join sep [] = []"
| "join sep [x] = x"
| "join sep (x # y # ys) = x @ sep @ join sep (y # ys)"

definition lastIndexOf :: "string \<Rightarrow> char \<Rightarrow> int" where
  "lastIndexOf s c =
     (if c \<in> set s then int (length s) - 1 - int (length (takeWhile (\<lambda>x. x \<noteq> c) (rev s)))
      else - 1)"

definition startsWith :: "string \<Rightarrow> string \<Rightarrow> bool" where
  "startsWith s p = (take (length p) s = p)"

definition to_lower_ascii :: "char \<Rightarrow> char" where
  "to_lower_ascii c =
     (let n = (of_char c :: nat) in if 65 \<le> n \<and> n \<le> 90 then char_of (n + 32) else c)"

text \<open>\<open>parseInt(s, 10)\<close>: leading white space, a sign, then the longest run of digits.\<close>

definition split_sign :: "string \<Rightarrow> bool \<times> string" where
  "split_sign t =
     (case t of
        [] \<Rightarrow> (False, [])
      | c # r \<Rightarrow> if c = CHR ''-'' then (True, r) else if c = CHR ''+'' then (False, r) else (False, t))"

definition parseInt10 :: "platform \<Rightarrow> string \<Rightarrow> jsnum" where
  "parseInt10 P s =
     (let (neg, u) = split_sign (dropWhile is_ws s);
          ds = takeWhile is_digit u
      in if ds = [] then NaN
         else number_of P ((if neg then - 1 else 1) * of_nat (digits_val ds)))"

section \<open>Instance Name Parser\<close>

record ParsedInstanceNameDetails =
  numCustomers :: "jsnum option"
  numVehicles :: "jsnum option"
  problemVariant :: "string option"
  baseInstanceName :: string

text \<open>\<open>instanceName.replace(/\.(vrp|txt|log|html)$/i, '')\<close>\<close>

definition strip_extension :: "string \<Rightarrow> string" where
  "strip_extension s =
     (case find (\<lambda>e. length e + 1 \<le> length s \<and>
                      map to_lower_ascii (drop (length s - (length e + 1)) s) = CHR ''.'' # e)
             [''vrp'', ''txt'', ''log'', ''html''] of
        None \<Rightarrow> s
      | Some e \<Rightarrow> take (length s - (length e + 1)) s)"

definition parseGenericInstanceName :: "platform \<Rightarrow> string \<Rightarrow> ParsedInstanceNameDetails" where
  "parseGenericInstanceName P instanceName =
     (let nameWithoutExtension = strip_extension instanceName;
          parts = split_on CHR ''_'' nameWithoutExtension
      in if length parts \<ge> 2 \<and> \<not> isNaN (parseInt10 P (parts ! 0)) \<and> \<not> isNaN (parseInt10 P (parts ! 1))
         then
           (let nc = parseInt10 P (parts ! 0);
                nv = parseInt10 P (parts ! 1);
                pv = (if length parts \<ge> 3 then join ''_'' (drop 2 parts) else ''default'')
            in \<lparr> numCustomers = Some nc, numVehicles = Some nv, problemVariant = Some pv,
                 baseInstanceName = Number_toString P nc @ ''_'' @ Number_toString P nv \<rparr>)
         else
           (let lastUnderscoreIndex = lastIndexOf nameWithoutExtension CHR ''_''
            in if lastUnderscoreIndex \<noteq> - 1
                  \<and> lastUnderscoreIndex < int (length nameWithoutExtension) - 1
               then \<lparr> numCustomers = None, numVehicles = None,
                      problemVariant = Some (drop (nat (lastUnderscoreIndex + 1)) nameWithoutExtension),
                      baseInstanceName = take (nat lastUnderscoreIndex) nameWithoutExtension \<rparr>
               else \<lparr> numCustomers = None, numVehicles = None,
                      problemVariant = Some ''default'',
                      baseInstanceName = nameWithoutExtension \<rparr>))"

text \<open>
  Predicates for stating what the parser does: the segments of a name, and whether
  \<open>parseInt\<close> finds an integer at the start of a segment.
\<close>

definition segments :: "string \<Rightarrow> string list" where
  "segments s = split_on CHR ''_'' (strip_extension s)"

definition starts_with_integer :: "string \<Rightarrow> bool" where
  "starts_with_integer seg = (takeWhile is_digit (snd (split_sign (dropWhile is_ws seg))) \<noteq> [])"

definition integer_pair :: "platform \<Rightarrow> string list \<Rightarrow> bool" where
  "integer_pair P parts \<longleftrightarrow>
     length parts \<ge> 2 \<and> \<not> isNaN (parseInt10 P (parts ! 0)) \<and> \<not> isNaN (parseInt10 P (parts ! 1))"

text \<open>The spec's "plain non-negative integer literal": one or more digits and nothing else.\<close>

definition plain_integer_literal :: "string \<Rightarrow> bool" where
  "plain_integer_literal seg \<longleftrightarrow> seg \<noteq> [] \<and> list_all is_digit seg"

section \<open>Numbers: arithmetic, comparison, conversion\<close>

text \<open>
  IEEE arithmetic: the exact result of two finite operands is rounded by the platform;
  the cases with NaN and the infinities are written out.
\<close>

fun js_add :: "platform \<Rightarrow> jsnum \<Rightarrow> jsnum \<Rightarrow> jsnum" where
  "js_add P NaN _ = NaN"
| "js_add P _ NaN = NaN"
| "js_add P PosInf NegInf = NaN"
| "js_add P NegInf PosInf = NaN"
| "js_add P PosInf _ = PosInf"
| "js_add P _ PosInf = PosInf"
| "js_add P NegInf _ = NegInf"
| "js_add P _ NegInf = NegInf"
| "js_add P (Fin a) (Fin b) = number_of P (a + b)"

fun js_neg :: "jsnum \<Rightarrow> jsnum" where
  "js_neg NaN = NaN"
| "js_neg PosInf = NegInf"
| "js_neg NegInf = PosInf"
| "js_neg (Fin a) = Fin (- a)"

definition js_sub :: "platform \<Rightarrow> jsnum \<Rightarrow> jsnum \<Rightarrow> jsnum" where
  "js_sub P a b = js_add P a (js_neg b)"

text \<open>\<open>a < b\<close>: false as soon as one side is NaN.\<close>

fun js_lt :: "jsnum \<Rightarrow> jsnum \<Rightarrow> bool" where
  "js_lt NaN _ = False"
| "js_lt _ NaN = False"
| "js_lt PosInf _ = False"
| "js_lt _ PosInf = True"
| "js_lt _ NegInf = False"
| "js_lt NegInf _ = True"
| "js_lt (Fin a) (Fin b) = (a < b)"

definition js_gt :: "jsnum \<Rightarrow> jsnum \<Rightarrow> bool" where
  "js_gt a b = js_lt b a"

text \<open>\<open>a === b\<close> on numbers: NaN equals nothing, itself included.\<close>

definition js_eq :: "jsnum \<Rightarrow> jsnum \<Rightarrow> bool" where
  "js_eq a b \<longleftrightarrow> a \<noteq> NaN \<and> a = b"

text \<open>\<open>a / b\<close>. A zero divisor is taken as positive zero.\<close>

definition js_sign_pos :: "jsnum \<Rightarrow> bool" where
  "js_sign_pos a = (case a of Fin x \<Rightarrow> 0 \<le> x | PosInf \<Rightarrow> True | _ \<Rightarrow> False)"

fun js_div :: "platform \<Rightarrow> jsnum \<Rightarrow> jsnum \<Rightarrow> jsnum" where
  "js_div P NaN _ = NaN"
| "js_div P _ NaN = NaN"
| "js_div P (Fin a) (Fin b) =
     (if b = 0 then (if a = 0 then NaN else if 0 < a then PosInf else NegInf)
      else number_of P (a / b))"
| "js_div P (Fin a) _ = Fin 0"
| "js_div P a (Fin b) = (if js_sign_pos a = (0 \<le> b) then PosInf else NegInf)"
| "js_div P _ _ = NaN"

text \<open>
  \<open>parseFloat\<close> on a string: leading white space, then the longest prefix that is a
  decimal literal (a sign, \<open>Infinity\<close> or digits with an optional fraction and exponent);
  NaN when there is none.
\<close>

definition pow10 :: "int \<Rightarrow> rat" where
  "pow10 e = (if 0 \<le> e then 10 ^ nat e else 1 / 10 ^ nat (- e))"

definition parse_exponent :: "string \<Rightarrow> int" where
  "parse_exponent r =
     (case r of
        [] \<Rightarrow> 0
      | c # r' \<Rightarrow>
          if c = CHR ''e'' \<or> c = CHR ''E'' then
            (let (eneg, u) = split_sign r'; ed = takeWhile is_digit u
             in if ed = [] then 0
                else (if eneg then - int (digits_val ed) else int (digits_val ed)))
          else 0)"

definition parseFloat_str :: "platform \<Rightarrow> string \<Rightarrow> jsnum" where
  "parseFloat_str P s =
     (let (neg, u) = split_sign (dropWhile is_ws s)
      in if startsWith u ''Infinity'' then (if neg then NegInf else PosInf)
         else
           (let ip = takeWhile is_digit u;
                r1 = dropWhile is_digit u;
                (fp, r2) = (case r1 of
                              [] \<Rightarrow> ([], r1)
                            | c # r \<Rightarrow> if c = CHR ''.''
                                       then (takeWhile is_digit r, dropWhile is_digit r)
                                       else ([], r1))
            in if ip = [] \<and> fp = [] then NaN
               else number_of P
                      ((if neg then - 1 else 1) * of_nat (digits_val (ip @ fp))
                         * pow10 (parse_exponent r2 - int (length fp)))))"

text \<open>
  \<open>String(v)\<close> for a value that came out of \<open>JSON.parse\<close>. An array joins its elements with
  commas, \<open>null\<close> and \<open>undefined\<close> elements as empty strings. An object is
  \<open>[object Object]\<close>, unless it has a property \<open>toString\<close> of its own: a JSON value is
  never callable, so the conversion then throws a TypeError.
\<close>

fun sequence_results :: "(js_error + 'a) list \<Rightarrow> js_error + 'a list" where
  "sequence_results [] = Inr []"
| "sequence_results (x # xs) =
     (case x of
        Inl e \<Rightarrow> Inl e
      | Inr v \<Rightarrow> (case sequence_results xs of Inl e \<Rightarrow> Inl e | Inr vs \<Rightarrow> Inr (v # vs)))"

fun ToString :: "platform \<Rightarrow> jsval \<Rightarrow> js_error + string" where
  "ToString P JUndefined = Inr ''undefined''"
| "ToString P JNull = Inr ''null''"
| "ToString P (JBool b) = Inr (if b then ''true'' else ''false'')"
| "ToString P (JNum n) = Inr (Number_toString P n)"
| "ToString P (JStr s) = Inr s"
| "ToString P (JArr xs) =
     (case sequence_results
             (map (\<lambda>x. if x = JNull \<or> x = JUndefined then Inr [] else ToString P x) xs) of
        Inl e \<Rightarrow> Inl e
      | Inr strs \<Rightarrow> Inr (join '','' strs))"
| "ToString P (JObj kvs) =
     (if ''toString'' \<in> fst ` set kvs then Inl TypeError else Inr ''[object Object]'')"
| "ToString P (JFunction name) = Inr (Function_toString P name)"

definition parseFloat :: "platform \<Rightarrow> jsval \<Rightarrow> js_error + jsnum" where
  "parseFloat P v = (case ToString P v of Inl e \<Rightarrow> Inl e | Inr s \<Rightarrow> Inr (parseFloat_str P s))"

section \<open>The unified record\<close>

datatype sourceType = Leaderboard | Log

text \<open>
  \<open>UnifiedDataItem\<close> carries the four fields of \<open>ParsedInstanceNameDetails\<close> and its own.
  The fields \<open>id\<close> and \<open>instance\<close> are named \<open>item_id\<close> and \<open>instanceName\<close> here.
\<close>

record UnifiedDataItem = ParsedInstanceNameDetails +
  item_id :: string
  sourceName :: string
  entryOwner :: string
  instanceName :: string
  score :: "jsnum option"
  time :: "jsnum option"
  solutionString :: jsval
  isUnsolved :: bool
  sourceType :: sourceType

definition make_item ::
  "ParsedInstanceNameDetails \<Rightarrow> string \<Rightarrow> string \<Rightarrow> string \<Rightarrow> string \<Rightarrow> jsnum option
     \<Rightarrow> jsnum option \<Rightarrow> jsval \<Rightarrow> bool \<Rightarrow> sourceType \<Rightarrow> UnifiedDataItem" where
  "make_item parsedNameDetails i src owner inst sc tm sol unsolved ty =
     \<lparr> numCustomers = numCustomers parsedNameDetails,
       numVehicles = numVehicles parsedNameDetails,
       problemVariant = problemVariant parsedNameDetails,
       baseInstanceName = baseInstanceName parsedNameDetails,
       item_id = i, sourceName = src, entryOwner = owner, instanceName = inst,
       score = sc, time = tm, solutionString = sol, isUnsolved = unsolved, sourceType = ty \<rparr>"



section \<open>Record Store\<close>

text \<open>
  The page keeps the records in \<open>masterData\<close>, next to an error message and the
  visibility of each owner. \<open>handleDataUpdate\<close> and \<open>handleDataCleared\<close> are the two
  callbacks that change the records; the optional argument of the second is \<open>None\<close> when
  it is called without one.
\<close>

record page_state =
  masterData :: "UnifiedDataItem list"
  error :: "string option"
  ownerVisibility :: "(string \<times> bool) list"

definition handleDataUpdate :: "UnifiedDataItem list \<Rightarrow> page_state \<Rightarrow> page_state" where
  "handleDataUpdate newData st = st \<lparr> masterData := masterData st @ newData, error := None \<rparr>"

text \<open>\<open>if (sourceNameToClear)\<close> is false for a missing argument and for the empty string.\<close>

definition handleDataCleared :: "string option \<Rightarrow> page_state \<Rightarrow> page_state" where
  "handleDataCleared sourceNameToClear st =
     (case sourceNameToClear of
        Some s \<Rightarrow>
          if s \<noteq> [] then
            st \<lparr> masterData := filter (\<lambda>item. sourceName item \<noteq> s) (masterData st),
                 error := None \<rparr>
          else st \<lparr> masterData := [], ownerVisibility := [], error := None \<rparr>
      | None \<Rightarrow> st \<lparr> masterData := [], ownerVisibility := [], error := None \<rparr>)"

text \<open>
  Where the records and the source names come from. The uploader parses a file, and so
  produces records carrying the file's name, only when the name ends in \<open>.log\<close>, \<open>.html\<close>
  or \<open>.htm\<close>; \<open>removeFile\<close> passes \<open>handleDataCleared\<close> the name of a file it holds.
\<close>

definition endsWith :: "string \<Rightarrow> string \<Rightarrow> bool" where
  "endsWith s p = (length p \<le> length s \<and> drop (length s - length p) s = p)"

definition parsed_source_name :: "string \<Rightarrow> bool" where
  "parsed_source_name fileName \<longleftrightarrow>
     endsWith fileName ''.log'' \<or> endsWith fileName ''.html'' \<or> endsWith fileName ''.htm''"

section \<open>Metrics Engine\<close>

text \<open>
  A JavaScript \<open>Map\<close> keeps its keys in insertion order: it is an association list, where
  \<open>AList.update\<close> replaces the value of a key in place and appends a new key at the end,
  as \<open>Map.set\<close> does. The counters are natural numbers.
\<close>

record sizeStats =
  size_score :: jsnum
  size_count :: nat

record OwnerMetrics =
  totalScore :: jsnum
  avgScore :: jsnum
  solvedCount :: nat
  totalProblems :: nat
  bestSolutions :: nat
  bySize :: "(jsnum \<times> sizeStats) list"

definition new_metrics :: OwnerMetrics where
  "new_metrics = \<lparr> totalScore = Fin 0, avgScore = Fin 0, solvedCount = 0, totalProblems = 0,
                    bestSolutions = 0, bySize = [] \<rparr>"

type_synonym metrics_state = "(string \<times> OwnerMetrics) list \<times> (string \<times> jsnum) list"

text \<open>One round of the first loop: \<open>ownerPerformance\<close> and \<open>instanceBestScores\<close> after \<open>item\<close>.\<close>

definition first_pass_step :: "platform \<Rightarrow> metrics_state \<Rightarrow> UnifiedDataItem \<Rightarrow> metrics_state" where
  "first_pass_step P st item =
     (let (ownerPerformance, instanceBestScores) = st;
          owner = entryOwner item;
          inst = instanceName item;
          performance = (case map_of ownerPerformance owner of
                           None \<Rightarrow> new_metrics
                         | Some p \<Rightarrow> p);
          performance = performance \<lparr> totalProblems := totalProblems performance + 1 \<rparr>
      in case score item of
           Some sc \<Rightarrow>
             if \<not> isUnsolved item then
               (let performance = performance
                      \<lparr> totalScore := js_add P (totalScore performance) sc,
                        solvedCount := solvedCount performance + 1 \<rparr>;
                    instanceBestScores =
                      (case map_of instanceBestScores inst of
                         None \<Rightarrow> AList.update inst sc instanceBestScores
                       | Some b \<Rightarrow> if js_lt sc b then AList.update inst sc instanceBestScores
                                  else instanceBestScores);
                    performance =
                      (case numCustomers item of
                         None \<Rightarrow> performance
                       | Some sz \<Rightarrow>
                           (let sizeStats = (case map_of (bySize performance) sz of
                                               None \<Rightarrow> \<lparr> size_score = Fin 0, size_count = 0 \<rparr>
                                             | Some s \<Rightarrow> s)
                            in performance
                                 \<lparr> bySize := AList.update sz
                                      \<lparr> size_score = js_add P (size_score sizeStats) sc,
                                        size_count = size_count sizeStats + 1 \<rparr>
                                      (bySize performance) \<rparr>))
                in (AList.update owner performance ownerPerformance, instanceBestScores))
             else (AList.update owner performance ownerPerformance, instanceBestScores)
         | None \<Rightarrow> (AList.update owner performance ownerPerformance, instanceBestScores))"

definition first_pass :: "platform \<Rightarrow> UnifiedDataItem list \<Rightarrow> metrics_state" where
  "first_pass P data = foldl (first_pass_step P) ([], []) data"

text \<open>The inner loop of the second pass: one increment for each record that passes both tests.\<close>

fun count_best ::
  "UnifiedDataItem list \<Rightarrow> (string \<times> jsnum) list \<Rightarrow> string \<Rightarrow> nat \<Rightarrow> nat" where
  "count_best [] instanceBestScores owner n = n"
| "count_best (item # rest) instanceBestScores owner n =
     count_best rest instanceBestScores owner
       (case score item of
          Some sc \<Rightarrow>
            if entryOwner item = owner \<and> \<not> isUnsolved item then
              (case map_of instanceBestScores (instanceName item) of
                 Some b \<Rightarrow> if js_eq sc b then n + 1 else n
               | None \<Rightarrow> n)
            else n
        | None \<Rightarrow> n)"

definition second_pass_entry ::
  "platform \<Rightarrow> UnifiedDataItem list \<Rightarrow> (string \<times> jsnum) list \<Rightarrow> string \<times> OwnerMetrics
     \<Rightarrow> string \<times> OwnerMetrics" where
  "second_pass_entry P data instanceBestScores e =
     (let (owner, performance) = e;
          performance = performance
            \<lparr> avgScore := (if solvedCount performance > 0
                            then js_div P (totalScore performance)
                                   (Fin (of_nat (solvedCount performance)))
                            else PosInf) \<rparr>
      in (owner, performance
            \<lparr> bestSolutions :=
                count_best data instanceBestScores owner (bestSolutions performance) \<rparr>))"

definition calculateUnifiedMetrics ::
  "platform \<Rightarrow> UnifiedDataItem list \<Rightarrow> (string \<times> OwnerMetrics) list" where
  "calculateUnifiedMetrics P data =
     (let (ownerPerformance, instanceBestScores) = first_pass P data
      in map (second_pass_entry P data instanceBestScores) ownerPerformance)"

text \<open>
  For stating the claims: a record counts as solved when the code's test
  \<open>!item.isUnsolved && item.score !== null\<close> holds; a score is the global minimum of an
  instance when it is a number that a solved record of the instance has and no solved
  record of the instance has a smaller one.
\<close>

definition solved :: "UnifiedDataItem \<Rightarrow> bool" where
  "solved item \<longleftrightarrow> \<not> isUnsolved item \<and> score item \<noteq> None"

definition solved_scores :: "UnifiedDataItem list \<Rightarrow> string \<Rightarrow> jsnum list" where
  "solved_scores data inst =
     concat (map (\<lambda>item. case score item of
                           Some sc \<Rightarrow> if \<not> isUnsolved item \<and> instanceName item = inst then [sc] else []
                         | None \<Rightarrow> []) data)"

definition global_minimum :: "UnifiedDataItem list \<Rightarrow> string \<Rightarrow> jsnum \<Rightarrow> bool" where
  "global_minimum data inst m \<longleftrightarrow>
     m \<in> set (solved_scores data inst) \<and> m \<noteq> NaN \<and>
     list_all (\<lambda>sc. \<not> js_lt sc m) (solved_scores data inst)"

definition achieves_best :: "UnifiedDataItem list \<Rightarrow> string \<Rightarrow> UnifiedDataItem \<Rightarrow> bool" where
  "achieves_best data owner item \<longleftrightarrow>
     entryOwner item = owner \<and> solved item \<and>
     (case score item of Some sc \<Rightarrow> global_minimum data (instanceName item) sc | None \<Rightarrow> False)"

text \<open>The running minimum that the first pass keeps for an instance.\<close>

definition best_step :: "(string \<times> jsnum) list \<Rightarrow> UnifiedDataItem \<Rightarrow> (string \<times> jsnum) list" where
  "best_step instanceBestScores item =
     (case score item of
        Some sc \<Rightarrow>
          if \<not> isUnsolved item then
            (case map_of instanceBestScores (instanceName item) of
               None \<Rightarrow> AList.update (instanceName item) sc instanceBestScores
             | Some b \<Rightarrow> if js_lt sc b then AList.update (instanceName item) sc instanceBestScores
                        else instanceBestScores)
          else instanceBestScores
      | None \<Rightarrow> instanceBestScores)"

definition min_step :: "jsnum option \<Rightarrow> jsnum \<Rightarrow> jsnum option" where
  "min_step acc sc = (case acc of None \<Rightarrow> Some sc | Some b \<Rightarrow> if js_lt sc b then Some sc else Some b)"

text \<open>
  \<open>counted P data owner item\<close>: the second pass increments \<open>owner\<close>'s \<open>bestSolutions\<close> at
  \<open>item\<close>, that is, both tests of its inner loop pass.
\<close>

definition counted :: "platform \<Rightarrow> UnifiedDataItem list \<Rightarrow> string \<Rightarrow> UnifiedDataItem \<Rightarrow> bool" where
  "counted P data owner item =
     (case score item of
        Some sc \<Rightarrow>
          entryOwner item = owner \<and> \<not> isUnsolved item \<and>
          (case map_of (snd (first_pass P data)) (instanceName item) of
             Some b \<Rightarrow> js_eq sc b
           | None \<Rightarrow> False)
      | None \<Rightarrow> False)"

text \<open>The distinct instances on which \<open>owner\<close> has a solved score equal to the global minimum.\<close>

definition best_instances :: "UnifiedDataItem list \<Rightarrow> string \<Rightarrow> string list" where
  "best_instances data owner = remdups (map instanceName (filter (achieves_best data owner) data))"

section \<open>Log Format Parser\<close>

text \<open>
  Reading a property: of \<open>null\<close> or \<open>undefined\<close> it throws a TypeError, of an object it is
  the property's value or \<open>undefined\<close>, of any other JSON value it is \<open>undefined\<close> (for the
  four property names the parser reads).
\<close>

definition get_property :: "jsval \<Rightarrow> string \<Rightarrow> js_error + jsval" where
  "get_property v key =
     (case v of
        JNull \<Rightarrow> Inl TypeError
      | JUndefined \<Rightarrow> Inl TypeError
      | JObj kvs \<Rightarrow> Inr (case map_of kvs key of None \<Rightarrow> JUndefined | Some x \<Rightarrow> x)
      | _ \<Rightarrow> Inr JUndefined)"

text \<open>
  One round of the loop over the lines, with \<open>k\<close> identifiers drawn so far: the line is
  skipped by \<open>continue\<close>, or an exception is thrown and caught, or an item is pushed.
  \<open>parseGenericInstanceName\<close> calls \<open>replace\<close> on its argument, which throws a TypeError
  unless the argument is a string.
\<close>

datatype line_result = Skipped | Caught js_error | Pushed UnifiedDataItem

definition parse_log_line :: "platform \<Rightarrow> string \<Rightarrow> nat \<Rightarrow> string \<Rightarrow> line_result" where
  "parse_log_line P logFilename k line =
     (if trim line = [] then Skipped
      else case JSON_parse P line of
        None \<Rightarrow> Caught SyntaxError
      | Some logLineEntry \<Rightarrow>
         (case get_property logLineEntry ''Instance'' of
            Inl e \<Rightarrow> Caught e
          | Inr JUndefined \<Rightarrow> Caught TypeError
          | Inr JNull \<Rightarrow> Caught TypeError
          | Inr (JBool _) \<Rightarrow> Caught TypeError
          | Inr (JNum _) \<Rightarrow> Caught TypeError
          | Inr (JArr _) \<Rightarrow> Caught TypeError
          | Inr (JObj _) \<Rightarrow> Caught TypeError
          | Inr (JFunction _) \<Rightarrow> Caught TypeError
          | Inr (JStr name) \<Rightarrow>
             (let parsedNameDetails = parseGenericInstanceName P name;
                  scoreStr = (case get_property logLineEntry ''Result'' of Inr v \<Rightarrow> v | Inl _ \<Rightarrow> JUndefined);
                  timeStr = (case get_property logLineEntry ''Time'' of Inr v \<Rightarrow> v | Inl _ \<Rightarrow> JUndefined);
                  unsolved = (scoreStr = JStr ''--'' \<or> timeStr = JStr ''--'');
                  solution = (case get_property logLineEntry ''Solution'' of Inr v \<Rightarrow> v | Inl _ \<Rightarrow> JUndefined)
              in if unsolved then
                   Pushed (make_item parsedNameDetails (uuidv4 P k) logFilename logFilename
                             name None None solution True Log)
                 else
                   (case parseFloat P scoreStr of
                      Inl e \<Rightarrow> Caught e
                    | Inr sc \<Rightarrow>
                       (case parseFloat P timeStr of
                          Inl e \<Rightarrow> Caught e
                        | Inr tm \<Rightarrow>
                            Pushed (make_item parsedNameDetails (uuidv4 P k) logFilename logFilename
                                      name (Some sc) (Some tm) solution False Log))))))"

fun log_loop ::
  "platform \<Rightarrow> string \<Rightarrow> string list \<Rightarrow> UnifiedDataItem list \<Rightarrow> UnifiedDataItem list" where
  "log_loop P logFilename [] unifiedItems = unifiedItems"
| "log_loop P logFilename (line # lines) unifiedItems =
     log_loop P logFilename lines
       (case parse_log_line P logFilename (length unifiedItems) line of
          Pushed item \<Rightarrow> unifiedItems @ [item]
        | Skipped \<Rightarrow> unifiedItems
        | Caught _ \<Rightarrow> unifiedItems)"

definition log_lines :: "string \<Rightarrow> string list" where
  "log_lines logContent = split_on CHR 0x0A (trim logContent)"

definition parseLogEntries :: "platform \<Rightarrow> string \<Rightarrow> string \<Rightarrow> UnifiedDataItem list" where
  "parseLogEntries P logContent logFilename = log_loop P logFilename (log_lines logContent) []"

text \<open>What one line alone contributes, and an item without its identifier.\<close>

definition line_items :: "platform \<Rightarrow> string \<Rightarrow> string \<Rightarrow> UnifiedDataItem list" where
  "line_items P logFilename line =
     (case parse_log_line P logFilename 0 line of Pushed item \<Rightarrow> [item] | _ \<Rightarrow> [])"

definition without_id :: "UnifiedDataItem \<Rightarrow> UnifiedDataItem" where
  "without_id item = item \<lparr> item_id := [] \<rparr>"

section \<open>Leaderboard Format Parser\<close>

definition is_time_char :: "char \<Rightarrow> bool" where
  "is_time_char c = (is_digit c \<or> c = CHR ''.'')"

definition is_score_char :: "char \<Rightarrow> bool" where
  "is_score_char c = (is_digit c \<or> c = CHR ''.'' \<or> c = CHR ''-'')"

text \<open>
  \<open>\s*\[([\d.]+)\]\<close> at the start of a text, the rest of the text returned with the group.
  No character is both white space and \<open>[\<close>, or in the group and \<open>]\<close>, so the greedy match is
  the only one.
\<close>

definition match_bracket :: "string \<Rightarrow> (string \<times> string) option" where
  "match_bracket s =
     (case dropWhile is_ws s of
        [] \<Rightarrow> None
      | c # r \<Rightarrow>
          if c = CHR ''['' then
            (let g = takeWhile is_time_char r
             in case dropWhile is_time_char r of
                  [] \<Rightarrow> None
                | c' # rest \<Rightarrow> if g \<noteq> [] \<and> c' = CHR '']'' then Some (g, rest) else None)
          else None)"

text \<open>\<open>s.match(/--\s*\[([\d.]+)\]/)\<close>: the group of the leftmost match.\<close>

fun match_unsolved_time :: "string \<Rightarrow> string option" where
  "match_unsolved_time [] = None"
| "match_unsolved_time (c # cs) =
     (case (if startsWith (c # cs) ''--'' then match_bracket (drop 2 (c # cs)) else None) of
        Some (g, _) \<Rightarrow> Some g
      | None \<Rightarrow> match_unsolved_time cs)"

text \<open>\<open>s.match(/^([\d.-]+)(?:\s*\[([\d.]+)\])?$/)\<close>: the two groups, the second optional.\<close>

definition match_score_time :: "string \<Rightarrow> (string \<times> string option) option" where
  "match_score_time s =
     (let g1 = takeWhile is_score_char s; r = dropWhile is_score_char s
      in if g1 = [] then None
         else if r = [] then Some (g1, None)
         else (case match_bracket r of
                 Some (g2, rest) \<Rightarrow> if rest = [] then Some (g1, Some g2) else None
               | None \<Rightarrow> None))"

text \<open>The score, the time and \<open>isUnsolved\<close> of a cell, from its trimmed text.\<close>

definition parse_cell_content :: "platform \<Rightarrow> string \<Rightarrow> jsnum option \<times> jsnum option \<times> bool" where
  "parse_cell_content P cellContentStr =
     (if cellContentStr = ''--'' \<or> cellContentStr = [] \<or> startsWith cellContentStr ''-- [''
      then
        (case match_unsolved_time cellContentStr of
           Some g \<Rightarrow> (None, Some (parseFloat_str P g), True)
         | None \<Rightarrow> (None, None, True))
      else
        (case match_score_time cellContentStr of
           Some (g1, g2) \<Rightarrow>
             (Some (parseFloat_str P g1),
              (case g2 of Some g \<Rightarrow> Some (parseFloat_str P g) | None \<Rightarrow> None),
              False)
         | None \<Rightarrow> (None, None, True)))"


text \<open>
  \<open>entry[problemInstance]\<close>: a property of the entry's own, else the member of that name
  that every object inherits from \<open>Object.prototype\<close>, else \<open>undefined\<close>. The inherited
  members are built-in functions, \<open>constructor\<close> being the function \<open>Object\<close>, except
  \<open>__proto__\<close>, which is \<open>Object.prototype\<close> itself: an object without properties from JSON,
  converted to a string as such.
\<close>

definition Object_prototype_methods :: "string list" where
  "Object_prototype_methods =
     [''__defineGetter__'', ''__defineSetter__'', ''hasOwnProperty'', ''__lookupGetter__'',
      ''__lookupSetter__'', ''isPrototypeOf'', ''propertyIsEnumerable'', ''toString'',
      ''valueOf'', ''toLocaleString'']"

definition entry_property :: "LeaderboardEntry \<Rightarrow> string \<Rightarrow> jsval" where
  "entry_property entry key =
     (case map_of (entry_cells entry) key of
        Some v \<Rightarrow> v
      | None \<Rightarrow>
          if key = ''constructor'' then JFunction ''Object''
          else if key = ''__proto__'' then JObj []
          else if key \<in> set Object_prototype_methods then JFunction key
          else JUndefined)"

text \<open>
  The body of the inner \<open>forEach\<close>, with \<open>k\<close> identifiers drawn so far: nothing for a cell
  that is \<open>undefined\<close> or \<open>null\<close>, else one item; \<open>String(cellContent)\<close> may throw.
\<close>

definition leaderboard_cell ::
  "platform \<Rightarrow> string \<Rightarrow> string \<Rightarrow> LeaderboardEntry \<Rightarrow> string \<Rightarrow> nat
     \<Rightarrow> js_error + UnifiedDataItem option" where
  "leaderboard_cell P sourceFileName participantName entry problemInstance k =
     (let cellContent = entry_property entry problemInstance
      in if cellContent = JUndefined \<or> cellContent = JNull then Inr None
         else
           (let parsedNameDetails = parseGenericInstanceName P problemInstance
            in case ToString P cellContent of
                 Inl e \<Rightarrow> Inl e
               | Inr str \<Rightarrow>
                  (let (sc, tm, unsolved) = parse_cell_content P (trim str)
                   in Inr (Some (make_item parsedNameDetails (uuidv4 P k) sourceFileName
                                   participantName problemInstance sc tm JNull unsolved
                                   Leaderboard)))))"




text \<open>The spec's pattern for an unsolved cell with a time, \<open>/^--\s*\[([\d.]+)\]$/\<close>, and its group.\<close>

definition spec_unsolved_pattern :: "string \<Rightarrow> string option" where
  "spec_unsolved_pattern s =
     (if startsWith s ''--'' then
        (case match_bracket (drop 2 s) of
           Some (g, rest) \<Rightarrow> if rest = [] then Some g else None
         | None \<Rightarrow> None)
      else None)"

section \<open>Outlier and Insight Analyzer\<close>

record outlier =
  outlier_instance :: string
  observation :: string

definition group_step ::
  "(string \<times> (string \<times> UnifiedDataItem) list) list \<Rightarrow> UnifiedDataItem
     \<Rightarrow> (string \<times> (string \<times> UnifiedDataItem) list) list" where
  "group_step instanceMap item =
     AList.update (instanceName item)
       (AList.update (entryOwner item) item
          (case map_of instanceMap (instanceName item) of None \<Rightarrow> [] | Some ownerMap \<Rightarrow> ownerMap))
       instanceMap"

definition best_worst_step ::
  "jsnum \<times> string \<times> jsnum \<times> string \<Rightarrow> string \<times> jsnum \<Rightarrow> jsnum \<times> string \<times> jsnum \<times> string" where
  "best_worst_step acc e =
     (let (bestResult, bestOwner, worstResult, worstOwner) = acc;
          (owner, sc) = e;
          (bestResult, bestOwner) =
             (if js_lt sc bestResult then (sc, owner) else (bestResult, bestOwner));
          (worstResult, worstOwner) =
             (if js_gt sc worstResult then (sc, owner) else (worstResult, worstOwner))
      in (bestResult, bestOwner, worstResult, worstOwner))"

text \<open>One round of the loop over the instances: the observations it pushes, none or one.\<close>

definition instance_outliers ::
  "platform \<Rightarrow> string \<times> (string \<times> UnifiedDataItem) list \<Rightarrow> outlier list" where
  "instance_outliers P e =
     (let (inst, ownerMap) = e
      in if length ownerMap < 2 then []
         else
           (let solvedScores =
                  concat (map (\<lambda>(owner, d). case score d of
                                               None \<Rightarrow> []
                                             | Some sc \<Rightarrow> if isUnsolved d then [] else [(owner, sc)])
                            ownerMap);
                unsolvedOwners =
                  concat (map (\<lambda>(owner, d). if isUnsolved d \<or> score d = None then [owner] else [])
                            ownerMap)
            in if length solvedScores > 0 \<and> length unsolvedOwners > 0 then
                 [\<lparr> outlier_instance = inst,
                    observation = ''Solved by: '' @ join '', '' (map fst solvedScores)
                                  @ ''. Unsolved by: '' @ join '', '' unsolvedOwners @ ''.'' \<rparr>]
               else if length solvedScores = length ownerMap \<and> length solvedScores > 1 then
                 (let (bestResult, bestOwner, worstResult, worstOwner) =
                        foldl best_worst_step (PosInf, [], NegInf, []) solvedScores;
                      gap = (if js_gt bestResult (Fin 0)
                             then js_div P (js_sub P worstResult bestResult) bestResult
                             else (if js_gt worstResult (Fin 0) then PosInf else Fin 0))
                  in if js_gt gap (number_of P (1 / 5))
                        \<or> (js_eq bestResult (Fin 0) \<and> js_gt worstResult (Fin 10))
                     then
                       [\<lparr> outlier_instance = inst,
                          observation = bestOwner @ '' (Score: '' @ Number_toFixed P bestResult 2
                                        @ '') performed significantly better than '' @ worstOwner
                                        @ '' (Score: '' @ Number_toFixed P worstResult 2 @ '').'' \<rparr>]
                     else [])
               else []))"

definition findProblemOutliers ::
  "platform \<Rightarrow> UnifiedDataItem list \<Rightarrow> string list \<Rightarrow> outlier list" where
  "findProblemOutliers P unifiedData owners =
     (let instanceMap = foldl group_step [] unifiedData;
          outliers = concat (map (instance_outliers P) instanceMap)
      in take 5 outliers)"







section \<open>A runtime for the examples\<close>

text \<open>
  The examples below run the model on a concrete runtime. Their numbers are doubles, so
  rounding returns them unchanged; a number is printed through its integer part, which is
  exact for the integers the examples print; \<open>JSON.parse\<close> is given on the lines the
  examples use and fails on every other text, none of which the examples take as valid;
  the one HTML text of the examples carries a leaderboard of one row and four columns.
\<close>

fun show_nat :: "nat \<Rightarrow> string" where
  "show_nat n =
     (if n < 10 then [char_of (48 + n)] else show_nat (n div 10) @ [char_of (48 + n mod 10)])"

declare show_nat.simps [simp del]

definition show_int :: "int \<Rightarrow> string" where
  "show_int i = (if i < 0 then CHR ''-'' # show_nat (nat (- i)) else show_nat (nat i))"

definition show_fixed :: "rat \<Rightarrow> nat \<Rightarrow> string" where
  "show_fixed r d =
     (let n = nat \<lfloor>\<bar>r\<bar> * 10 ^ d + 1 / 2\<rfloor>;
          ds = show_nat n;
          padded = replicate (d + 1 - length ds) CHR ''0'' @ ds;
          ip = take (length padded - d) padded;
          fp = drop (length padded - d) padded
      in (if r < 0 then ''-'' else []) @ ip @ (if d = 0 then [] else CHR ''.'' # fp))"

definition example_line_solved :: string where
  \<open>example_line_solved = ''{"Instance":"50_5_1.vrp","Time":"12.5","Result":"100.5","Solution":"x"}''\<close>

definition example_line_unsolved :: string where
  \<open>example_line_unsolved = ''{"Instance":"50_5_2.vrp","Time":"--","Result":"--","Solution":""}''\<close>

definition example_line_text_result :: string where
  \<open>example_line_text_result = ''{"Instance":"50_5_3.vrp","Time":"1","Result":"abc","Solution":""}''\<close>

definition example_line_malformed :: string where
  "example_line_malformed = ''not a record''"

definition example_JSON_parse :: "string \<Rightarrow> jsval option" where
  "example_JSON_parse s =
     (if s = example_line_solved then
        Some (JObj [(''Instance'', JStr ''50_5_1.vrp''), (''Time'', JStr ''12.5''),
                    (''Result'', JStr ''100.5''), (''Solution'', JStr ''x'')])
      else if s = example_line_unsolved then
        Some (JObj [(''Instance'', JStr ''50_5_2.vrp''), (''Time'', JStr ''--''),
                    (''Result'', JStr ''--''), (''Solution'', JStr [])])
      else if s = example_line_text_result then
        Some (JObj [(''Instance'', JStr ''50_5_3.vrp''), (''Time'', JStr ''1''),
                    (''Result'', JStr ''abc''), (''Solution'', JStr [])])
      else None)"

definition example_html :: string where
  \<open>example_html = ''<div data-react-class="Leaderboard" data-react-props="{&quot;columns&quot;:[{&quot;name&quot;:&quot;Rank&quot;},{&quot;name&quot;:&quot;50_5_1.vrp&quot;},{&quot;name&quot;:&quot;50_5_2.vrp&quot;},{&quot;name&quot;:&quot;50_5_3.vrp&quot;}],&quot;entries&quot;:[{&quot;name&quot;:&quot;Ann&quot;,&quot;Rank&quot;:1,&quot;50_5_1.vrp&quot;:&quot;-- [5.5]&quot;,&quot;50_5_2.vrp&quot;:&quot;--[5.5]&quot;,&quot;50_5_3.vrp&quot;:&quot;40.5 [0.25]&quot;}]}"></div>''\<close>

definition example_read_leaderboard :: "string \<Rightarrow> leaderboard_props" where
  "example_read_leaderboard html =
     (if html = example_html then
        PropsData
          [\<lparr> col_name = Some ''Rank'' \<rparr>, \<lparr> col_name = Some ''50_5_1.vrp'' \<rparr>,
           \<lparr> col_name = Some ''50_5_2.vrp'' \<rparr>, \<lparr> col_name = Some ''50_5_3.vrp'' \<rparr>]
          [\<lparr> entry_name = Some ''Ann'',
             entry_cells = [(''Rank'', JNum (Fin 1)), (''50_5_1.vrp'', JStr ''-- [5.5]''),
                            (''50_5_2.vrp'', JStr ''--[5.5]''),
                            (''50_5_3.vrp'', JStr ''40.5 [0.25]'')] \<rparr>]
      else NoLeaderboardDiv)"

definition example_platform :: platform where
  "example_platform =
     \<lparr> round_to_double = Some,
       Number_toString = (\<lambda>n. case n of
                                 NaN \<Rightarrow> ''NaN''
                               | PosInf \<Rightarrow> ''Infinity''
                               | NegInf \<Rightarrow> ''-Infinity''
                               | Fin r \<Rightarrow> show_int \<lfloor>r\<rfloor>),
       Number_toFixed = (\<lambda>n d. case n of
                                  NaN \<Rightarrow> ''NaN''
                                | PosInf \<Rightarrow> ''Infinity''
                                | NegInf \<Rightarrow> ''-Infinity''
                                | Fin r \<Rightarrow> show_fixed r d),
       Function_toString = (\<lambda>name. ''function '' @ name @ ''() { [native code] }''),
       JSON_parse = example_JSON_parse,
       uuidv4 = (\<lambda>k. ''id-'' @ show_nat k),
       read_leaderboard = example_read_leaderboard \<rparr>"

definition example_item :: "string \<Rightarrow> string \<Rightarrow> string \<Rightarrow> jsnum option \<Rightarrow> UnifiedDataItem" where
  "example_item src owner inst sc =
     make_item (parseGenericInstanceName example_platform inst) [] src owner inst sc None JNull
       (sc = None) Log"

text \<open>
  Three owners on one instance: \<open>A\<close> and \<open>B\<close> both score 5, \<open>C\<close> did not solve it. Then
  three logs on one instance, where the first has the score NaN and the others tie on 5;
  and a log in which one line is there twice, with the two records it is parsed into.
\<close>

definition example_tie :: "UnifiedDataItem list" where
  "example_tie =
     [example_item ''a.log'' ''A'' ''50_5_1.vrp'' (Some (Fin 5)),
      example_item ''b.log'' ''B'' ''50_5_1.vrp'' (Some (Fin 5)),
      example_item ''c.log'' ''C'' ''50_5_1.vrp'' None]"

definition example_NaN_first :: "UnifiedDataItem list" where
  "example_NaN_first =
     [example_item ''a.log'' ''a.log'' ''50_5_1.vrp'' (Some NaN),
      example_item ''b.log'' ''b.log'' ''50_5_1.vrp'' (Some (Fin 5)),
      example_item ''c.log'' ''c.log'' ''50_5_1.vrp'' (Some (Fin 5))]"

definition example_log_repeated :: string where
  "example_log_repeated = example_line_solved @ [CHR 0x0A] @ example_line_solved @ [CHR 0x0A]"

definition example_repeated_record :: "string \<Rightarrow> UnifiedDataItem" where
  "example_repeated_record i =
     \<lparr> numCustomers = Some (Fin 50), numVehicles = Some (Fin 5), problemVariant = Some ''1'',
       baseInstanceName = ''50_5'', item_id = i, sourceName = ''a.log'', entryOwner = ''a.log'',
       instanceName = ''50_5_1.vrp'', score = Some (Fin (201 / 2)), time = Some (Fin (25 / 2)),
       solutionString = JStr ''x'', isUnsolved = False, sourceType = Log \<rparr>"

definition example_repeated_records :: "UnifiedDataItem list" where
  "example_repeated_records = [example_repeated_record ''id-0'', example_repeated_record ''id-1'']"

definition example_log :: string where
  "example_log =
     example_line_solved @ [CHR 0x0A] @ example_line_malformed @ [CHR 0x0A]
       @ example_line_unsolved @ [CHR 0x0A]"

definition example_entry :: LeaderboardEntry where
  "example_entry =
     \<lparr> entry_name = Some ''Ann'',
       entry_cells = [(''Rank'', JNum (Fin 1)), (''50_5_1.vrp'', JStr ''-- [5.5]''),
                      (''50_5_2.vrp'', JStr ''--[5.5]''),
                      (''50_5_3.vrp'', JStr ''40.5 [0.25]'')] \<rparr>"

section \<open>Instance Name Parser: properties\<close>

lemma split_on_ne: "split_on d s \<noteq> []"
  by (induction s) (auto split: list.splits)

lemma hd_split_on: "hd (split_on d s) = takeWhile (\<lambda>x. x \<noteq> d) s"
  by (induction s) (auto split: list.splits simp: split_on_ne)

lemma split_on_nth0: "split_on d s ! 0 = takeWhile (\<lambda>x. x \<noteq> d) s"
  using hd_split_on [of d s] split_on_ne [of d s] by (simp add: hd_conv_nth)

lemma lastIndexOf_notin: "c \<notin> set s \<Longrightarrow> lastIndexOf s c = - 1"
  by (simp add: lastIndexOf_def)

lemma lastIndexOf_split: "c \<notin> set v \<Longrightarrow> lastIndexOf (u @ c # v) c = int (length u)"
proof -
  assume nv: "c \<notin> set v"
  have "takeWhile (\<lambda>x. x \<noteq> c) (rev v @ c # rev u) = takeWhile (\<lambda>x. x \<noteq> c) (rev v)"
    by (rule takeWhile_tail) simp
  also have "\<dots> = rev v"
    using nv by (auto simp: takeWhile_eq_all_conv)
  finally have "takeWhile (\<lambda>x. x \<noteq> c) (rev v @ c # rev u) = rev v" .
  then show ?thesis by (simp add: lastIndexOf_def)
qed

lemma number_of_not_NaN: "number_of P r \<noteq> NaN"
  by (simp add: number_of_def split: option.splits)

lemma isNaN_parseInt10: "isNaN (parseInt10 P seg) \<longleftrightarrow> \<not> starts_with_integer seg"
  by (simp add: isNaN_def parseInt10_def starts_with_integer_def Let_def number_of_not_NaN
      split: prod.splits)

lemma parseInt10_empty: "parseInt10 P [] = NaN"
  by (simp add: parseInt10_def split_sign_def)

lemma parse_name_integer:
  "integer_pair P (split_on CHR ''_'' (strip_extension s)) \<Longrightarrow>
   baseInstanceName (parseGenericInstanceName P s) =
     Number_toString P (parseInt10 P (split_on CHR ''_'' (strip_extension s) ! 0)) @ ''_'' @
     Number_toString P (parseInt10 P (split_on CHR ''_'' (strip_extension s) ! 1))"
  by (simp add: parseGenericInstanceName_def Let_def integer_pair_def)

lemma parse_name_fallback:
  "\<not> integer_pair P (split_on CHR ''_'' (strip_extension s)) \<Longrightarrow>
   baseInstanceName (parseGenericInstanceName P s) =
     (let n = strip_extension s; i = lastIndexOf n CHR ''_''
      in if i \<noteq> - 1 \<and> i < int (length n) - 1 then take (nat i) n else n)"
  unfolding parseGenericInstanceName_def Let_def integer_pair_def
  by (simp only: if_not_P) (simp add: if_distrib [of baseInstanceName])

text \<open>
  C2, as the code has it. The integer interpretation is taken exactly when the name has
  at least two segments and \<open>parseInt\<close> finds an integer at the start of each of the first
  two: after optional white space and an optional sign, a digit. Then the sizes are the
  values \<open>parseInt\<close> returns. In every other case the parser falls through and both sizes
  are absent.
\<close>

theorem parse_name_integer_branch:
  "((numCustomers (parseGenericInstanceName P s) = None
       \<and> numVehicles (parseGenericInstanceName P s) = None)
      \<longleftrightarrow> \<not> (2 \<le> length (segments s) \<and> starts_with_integer (segments s ! 0)
                \<and> starts_with_integer (segments s ! 1)))
   \<and> (2 \<le> length (segments s) \<and> starts_with_integer (segments s ! 0)
        \<and> starts_with_integer (segments s ! 1)
      \<longrightarrow> numCustomers (parseGenericInstanceName P s) = Some (parseInt10 P (segments s ! 0))
        \<and> numVehicles (parseGenericInstanceName P s) = Some (parseInt10 P (segments s ! 1)))"
  by (simp add: parseGenericInstanceName_def Let_def isNaN_parseInt10 segments_def)

theorem parse_name_integer_branch_witness:
  "numCustomers (parseGenericInstanceName example_platform ''101_11_2.vrp'') = Some (Fin 101)
   \<and> numVehicles (parseGenericInstanceName example_platform ''101_11_2.vrp'') = Some (Fin 11)
   \<and> numCustomers (parseGenericInstanceName example_platform ''abc_5.vrp'') = None"
proof -
  have a: "segments ''101_11_2.vrp'' = [''101'', ''11'', ''2'']" by code_simp
  have b: "starts_with_integer ''101''" "starts_with_integer ''11''" by code_simp+
  have c: "parseInt10 example_platform ''101'' = Fin 101"
    "parseInt10 example_platform ''11'' = Fin 11" by code_simp+
  have d: "segments ''abc_5.vrp'' = [''abc'', ''5'']" by code_simp
  have e: "\<not> starts_with_integer ''abc''" by code_simp
  show ?thesis
    using parse_name_integer_branch [of example_platform "''101_11_2.vrp''"]
          parse_name_integer_branch [of example_platform "''abc_5.vrp''"]
    by (simp add: a b c d e)
qed

text \<open>
  C2 as the spec states it fails: in \<open>-5_12abc_x.vrp\<close> neither of the first two segments
  is a plain non-negative integer literal, and the parser returns the sizes -5 and 12.
\<close>

theorem parse_name_integer_branch_counterexample:
  "\<not> plain_integer_literal (segments ''-5_12abc_x.vrp'' ! 0)
   \<and> \<not> plain_integer_literal (segments ''-5_12abc_x.vrp'' ! 1)
   \<and> numCustomers (parseGenericInstanceName example_platform ''-5_12abc_x.vrp'') = Some (Fin (- 5))
   \<and> numVehicles (parseGenericInstanceName example_platform ''-5_12abc_x.vrp'') = Some (Fin 12)"
  by code_simp

text \<open>
  C3, as the code has it. \<open>baseInstanceName\<close> is empty in exactly two cases: the name
  without its extension is empty, or it is one underscore followed by a non-empty text
  without underscores (the base is then the empty text before that underscore). For every
  other name it is non-empty.
\<close>

theorem baseInstanceName_empty_iff:
  "baseInstanceName (parseGenericInstanceName P s) = [] \<longleftrightarrow>
     (strip_extension s = [] \<or>
      (\<exists>v. strip_extension s = CHR ''_'' # v \<and> v \<noteq> [] \<and> CHR ''_'' \<notin> set v))"
proof -
  define n where "n = strip_extension s"
  define B3 where "B3 = integer_pair P (split_on CHR ''_'' n)"
  let ?R = "n = [] \<or> (\<exists>v. n = CHR ''_'' # v \<and> v \<noteq> [] \<and> CHR ''_'' \<notin> set v)"
  let ?b = "baseInstanceName (parseGenericInstanceName P s)"
  show ?thesis
  proof (cases B3)
    case True
    then have b: "?b \<noteq> []"
      by (simp add: parse_name_integer n_def B3_def)
    have "n \<noteq> []" using True by (auto simp: B3_def integer_pair_def)
    moreover have "\<not> (\<exists>v. n = CHR ''_'' # v)"
    proof
      assume "\<exists>v. n = CHR ''_'' # v"
      then obtain v where "n = CHR ''_'' # v" by blast
      then have "split_on CHR ''_'' n ! 0 = []" by (simp add: split_on_nth0)
      with True show False by (simp add: B3_def integer_pair_def parseInt10_empty isNaN_def)
    qed
    ultimately show ?thesis using b by (auto simp: n_def)
  next
    case False
    show ?thesis
    proof (cases "CHR ''_'' \<in> set n")
      case notin: False
      then have "?b = n"
        using False
        by (simp add: parse_name_fallback Let_def n_def [symmetric] B3_def lastIndexOf_notin)
      then show ?thesis using notin by (auto simp: n_def [symmetric])
    next
      case True
      then obtain u v where n: "n = u @ CHR ''_'' # v" and nv: "CHR ''_'' \<notin> set v"
        using split_list_last by fastforce
      have li: "lastIndexOf n CHR ''_'' = int (length u)"
        using nv by (simp add: n lastIndexOf_split)
      show ?thesis
      proof (cases "v = []")
        case vne: False
        then have "?b = take (length u) n"
          using False li by (simp add: parse_name_fallback Let_def n_def [symmetric] B3_def n)
        then have "?b = u" by (simp add: n)
        moreover have "u = [] \<longleftrightarrow> ?R"
        proof
          assume "u = []" then show ?R using n nv vne by simp
        next
          assume ?R
          then obtain v' where v': "n = CHR ''_'' # v'" "CHR ''_'' \<notin> set v'" using n by auto
          show "u = []"
          proof (cases u)
            case Nil then show ?thesis .
          next
            case (Cons a u')
            with n v' have "v' = u' @ CHR ''_'' # v" by simp
            with v'(2) show ?thesis by simp
          qed
        qed
        ultimately show ?thesis by (simp add: n_def [symmetric])
      next
        case ve: True
        then have "?b = n"
          using False li by (simp add: parse_name_fallback Let_def n_def [symmetric] B3_def n)
        moreover have "\<not> ?R"
        proof
          assume ?R
          then obtain v' where v': "n = CHR ''_'' # v'" "v' \<noteq> []" "CHR ''_'' \<notin> set v'"
            using n by auto
          show False
          proof (cases u)
            case Nil with n ve v' show ?thesis by simp
          next
            case (Cons a u')
            with n v' have "v' = u' @ CHR ''_'' # v" by simp
            with v'(3) show ?thesis by simp
          qed
        qed
        moreover have "n \<noteq> []" using n by simp
        ultimately show ?thesis by (simp add: n_def [symmetric])
      qed
    qed
  qed
qed

theorem baseInstanceName_empty_iff_witness:
  "baseInstanceName (parseGenericInstanceName example_platform ''problem_A_variant1.txt'') \<noteq> []
   \<and> baseInstanceName (parseGenericInstanceName example_platform ''_x.vrp'') = []"
proof -
  have a: "strip_extension ''problem_A_variant1.txt'' = ''problem_A_variant1''" by code_simp
  have b: "strip_extension ''_x.vrp'' = ''_x''" by code_simp
  show ?thesis
    using baseInstanceName_empty_iff [of example_platform "''problem_A_variant1.txt''"]
          baseInstanceName_empty_iff [of example_platform "''_x.vrp''"]
    by (simp add: a b)
qed

text \<open>
  C3 as the spec states it fails: the empty name, a bare extension and \<open>_x.vrp\<close> all get
  an empty \<open>baseInstanceName\<close>.
\<close>

theorem baseInstanceName_nonempty_counterexample:
  "baseInstanceName (parseGenericInstanceName example_platform []) = []
   \<and> baseInstanceName (parseGenericInstanceName example_platform ''.vrp'') = []
   \<and> baseInstanceName (parseGenericInstanceName example_platform ''_x.vrp'') = []"
  by code_simp

section \<open>Record Store: properties\<close>

lemma parsed_source_name_nonempty: "parsed_source_name s \<Longrightarrow> s \<noteq> []"
  by (auto simp: parsed_source_name_def endsWith_def)

lemma append_then_clear_nonempty:
  assumes "s \<noteq> []"
    and "\<forall>r \<in> set (masterData st). sourceName r \<noteq> s"
    and "\<forall>r \<in> set batch. sourceName r = s"
  shows "handleDataCleared (Some s) (handleDataUpdate batch st) = st \<lparr> error := None \<rparr>"
proof -
  have keep: "filter (\<lambda>item. sourceName item \<noteq> s) (masterData st) = masterData st"
    using assms(2) by (simp add: filter_id_conv)
  have drop: "filter (\<lambda>item. sourceName item \<noteq> s) batch = []"
    using assms(3) by (simp add: filter_empty_conv)
  show ?thesis
    using assms(1) by (simp add: handleDataCleared_def handleDataUpdate_def keep drop)
qed

text \<open>
  C9. The source name is the name of a file the uploader has parsed, so it ends in
  \<open>.log\<close>, \<open>.html\<close> or \<open>.htm\<close>. When no record of the store has that source name and every
  record of the batch has it, appending the batch and then clearing that source gives back
  the records of the store, the same records in the same order. Nothing else of the page
  state changes, except that the error message is reset.
\<close>

theorem append_then_clear_source:
  assumes "parsed_source_name s"
    and "\<forall>r \<in> set (masterData st). sourceName r \<noteq> s"
    and "\<forall>r \<in> set batch. sourceName r = s"
  shows "masterData (handleDataCleared (Some s) (handleDataUpdate batch st)) = masterData st
         \<and> handleDataCleared (Some s) (handleDataUpdate batch st) = st \<lparr> error := None \<rparr>"
  using append_then_clear_nonempty [OF parsed_source_name_nonempty [OF assms(1)] assms(2,3)]
  by simp

theorem append_then_clear_source_witness:
  "parsed_source_name ''a.log''
   \<and> masterData
       (handleDataCleared (Some ''a.log'')
          (handleDataUpdate [example_item ''a.log'' ''a.log'' ''50_5_1.vrp'' (Some (Fin 7))]
             \<lparr> masterData = [example_item ''b.log'' ''b.log'' ''50_5_1.vrp'' None],
               error = None, ownerVisibility = [] \<rparr>))
     = [example_item ''b.log'' ''b.log'' ''50_5_1.vrp'' None]"
proof -
  have p: "parsed_source_name ''a.log''" by code_simp
  have a: "sourceName (example_item ''a.log'' ''a.log'' ''50_5_1.vrp'' (Some (Fin 7))) = ''a.log''"
    by (simp add: example_item_def make_item_def)
  have b: "sourceName (example_item ''b.log'' ''b.log'' ''50_5_1.vrp'' None) = ''b.log''"
    by (simp add: example_item_def make_item_def)
  show ?thesis
    using append_then_clear_source
      [OF p, of "\<lparr> masterData = [example_item ''b.log'' ''b.log'' ''50_5_1.vrp'' None],
             error = None, ownerVisibility = [] \<rparr>"
          "[example_item ''a.log'' ''a.log'' ''50_5_1.vrp'' (Some (Fin 7))]"] p
    by (simp add: a b)
qed

section \<open>Metrics Engine: properties\<close>

lemma js_lt_NaN [simp]: "\<not> js_lt a NaN" "\<not> js_lt NaN a"
  by (cases a; simp)+

lemma js_lt_irrefl [simp]: "\<not> js_lt a a"
  by (cases a) simp_all

lemma js_lt_trans: "js_lt a b \<Longrightarrow> js_lt b c \<Longrightarrow> js_lt a c"
  by (cases a; cases b; cases c) simp_all

lemma js_lt_asym: "js_lt a b \<Longrightarrow> \<not> js_lt b a"
  by (cases a; cases b) simp_all

lemma js_lt_total: "a \<noteq> NaN \<Longrightarrow> b \<noteq> NaN \<Longrightarrow> js_lt a b \<or> a = b \<or> js_lt b a"
  by (cases a; cases b) auto

subsection \<open>The first pass\<close>

lemma snd_first_pass_step: "snd (first_pass_step P st item) = best_step (snd st) item"
  by (cases st) (simp add: first_pass_step_def best_step_def Let_def split: option.splits)

lemma first_pass_snoc: "first_pass P (xs @ [x]) = first_pass_step P (first_pass P xs) x"
  by (simp add: first_pass_def)

lemma solved_scores_snoc:
  "solved_scores (xs @ [x]) inst =
     solved_scores xs inst @
       (case score x of Some sc \<Rightarrow> if \<not> isUnsolved x \<and> instanceName x = inst then [sc] else [] | None \<Rightarrow> [])"
  by (simp add: solved_scores_def)

lemma map_of_best_step:
  "map_of (best_step b item) inst =
     (case score item of
        Some sc \<Rightarrow> if \<not> isUnsolved item \<and> instanceName item = inst then min_step (map_of b inst) sc
                   else map_of b inst
      | None \<Rightarrow> map_of b inst)"
  by (auto simp: best_step_def min_step_def update_conv' split: option.splits)

lemma map_of_best: 
  "map_of (snd (first_pass P data)) inst = foldl min_step None (solved_scores data inst)"
proof (induction data rule: rev_induct)
  case Nil
  then show ?case by (simp add: first_pass_def solved_scores_def)
next
  case (snoc x xs)
  then show ?case
    by (simp add: first_pass_snoc snd_first_pass_step map_of_best_step solved_scores_snoc split: option.splits)
qed

lemma running_min_NaN: "foldl min_step (Some NaN) scs = Some NaN"
  by (induction scs) (simp_all add: min_step_def)

lemma running_min_NaN_first:
  "scs \<noteq> [] \<Longrightarrow> hd scs = NaN \<Longrightarrow> foldl min_step None scs = Some NaN"
proof -
  assume a: "scs \<noteq> []" "hd scs = NaN"
  then obtain rest where "scs = NaN # rest" by (cases scs) auto
  moreover have "min_step None NaN = Some NaN" by (simp add: min_step_def)
  ultimately show ?thesis by (simp add: running_min_NaN)
qed

lemma running_min_sound:
  "scs \<noteq> [] \<Longrightarrow> hd scs \<noteq> NaN \<Longrightarrow>
   \<exists>b. foldl min_step None scs = Some b \<and> b \<noteq> NaN \<and> b \<in> set scs
       \<and> list_all (\<lambda>sc. \<not> js_lt sc b) scs"
proof (induction scs rule: rev_induct)
  case Nil
  then show ?case by simp
next
  case (snoc x xs)
  show ?case
  proof (cases "xs = []")
    case True
    then show ?thesis using snoc.prems by (simp add: min_step_def)
  next
    case False
    then have "hd xs \<noteq> NaN" using snoc.prems by simp
    with snoc.IH False obtain b where b: "foldl min_step None xs = Some b" "b \<noteq> NaN"
      "b \<in> set xs" "list_all (\<lambda>sc. \<not> js_lt sc b) xs"
      by blast
    have step: "foldl min_step None (xs @ [x]) = (if js_lt x b then Some x else Some b)"
      by (simp add: b(1)) (simp add: min_step_def)
    show ?thesis
    proof (cases "js_lt x b")
      case True
      then have xn: "x \<noteq> NaN" by auto
      have "list_all (\<lambda>sc. \<not> js_lt sc x) xs"
        using b(4) True by (auto simp: list_all_iff dest: js_lt_trans)
      then show ?thesis unfolding step using True xn by simp
    next
      case False
      then show ?thesis unfolding step using b(2-4) by simp
    qed
  qed
qed

lemma running_min_complete:
  assumes "m \<in> set scs" and "m \<noteq> NaN" and "list_all (\<lambda>sc. \<not> js_lt sc m) scs"
    and "hd scs \<noteq> NaN"
  shows "foldl min_step None scs = Some m"
proof -
  have ne: "scs \<noteq> []" using assms(1) by auto
  from running_min_sound [OF ne assms(4)] obtain b where
    b: "foldl min_step None scs = Some b" "b \<noteq> NaN" "b \<in> set scs"
       "list_all (\<lambda>sc. \<not> js_lt sc b) scs" by blast
  have "\<not> js_lt b m" using assms(3) b(3) by (auto simp: list_all_iff)
  moreover have "\<not> js_lt m b" using assms(1) b(4) by (auto simp: list_all_iff)
  ultimately have "b = m"
    using js_lt_total [OF b(2) assms(2)] by blast
  with b(1) show ?thesis by simp
qed

lemma map_of_fst_first_pass_step:
  "owner \<noteq> entryOwner item \<Longrightarrow>
   map_of (fst (first_pass_step P st item)) owner = map_of (fst st) owner"
  by (cases st) (auto simp: first_pass_step_def Let_def update_conv' split: option.splits)

lemma first_pass_step_owner:
  "\<exists>q. map_of (fst (first_pass_step P st item)) (entryOwner item) = Some q
     \<and> bestSolutions q = (case map_of (fst st) (entryOwner item) of None \<Rightarrow> 0 | Some p \<Rightarrow> bestSolutions p)
     \<and> solvedCount q = (case map_of (fst st) (entryOwner item) of None \<Rightarrow> 0 | Some p \<Rightarrow> solvedCount p)
                         + (if solved item then 1 else 0)
     \<and> totalProblems q = (case map_of (fst st) (entryOwner item) of None \<Rightarrow> 0 | Some p \<Rightarrow> totalProblems p) + 1"
  by (cases st)
     (auto simp: first_pass_step_def Let_def update_conv' solved_def new_metrics_def split: option.splits)

lemma first_pass_owner:
  "case map_of (fst (first_pass P data)) owner of
     None \<Rightarrow> \<forall>r \<in> set data. entryOwner r \<noteq> owner
   | Some p \<Rightarrow> bestSolutions p = 0
       \<and> solvedCount p = length (filter (\<lambda>r. entryOwner r = owner \<and> solved r) data)
       \<and> totalProblems p = length (filter (\<lambda>r. entryOwner r = owner) data)"
proof (induction data rule: rev_induct)
  case Nil
  then show ?case by (simp add: first_pass_def)
next
  case (snoc x xs)
  show ?case
  proof (cases "owner = entryOwner x")
    case False
    then show ?thesis
      using snoc by (auto simp: first_pass_snoc map_of_fst_first_pass_step split: option.splits)
  next
    case True
    from first_pass_step_owner [of P "first_pass P xs" x] obtain q where
      q: "map_of (fst (first_pass_step P (first_pass P xs) x)) (entryOwner x) = Some q"
         "bestSolutions q = (case map_of (fst (first_pass P xs)) (entryOwner x) of None \<Rightarrow> 0 | Some p \<Rightarrow> bestSolutions p)"
         "solvedCount q = (case map_of (fst (first_pass P xs)) (entryOwner x) of None \<Rightarrow> 0 | Some p \<Rightarrow> solvedCount p)
                         + (if solved x then 1 else 0)"
         "totalProblems q = (case map_of (fst (first_pass P xs)) (entryOwner x) of None \<Rightarrow> 0 | Some p \<Rightarrow> totalProblems p) + 1"
      by blast
    show ?thesis
    proof (cases "map_of (fst (first_pass P xs)) (entryOwner x)")
      case None
      with snoc True have "\<forall>r \<in> set xs. entryOwner r \<noteq> entryOwner x" by simp
      then have "filter (\<lambda>r. entryOwner r = entryOwner x \<and> solved r) xs = []"
        "filter (\<lambda>r. entryOwner r = entryOwner x) xs = []"
        by (auto simp: filter_empty_conv)
      then show ?thesis using q None True by (simp add: first_pass_snoc)
    next
      case (Some p)
      with snoc True have "bestSolutions p = 0"
        "solvedCount p = length (filter (\<lambda>r. entryOwner r = entryOwner x \<and> solved r) xs)"
        "totalProblems p = length (filter (\<lambda>r. entryOwner r = entryOwner x) xs)" by simp_all
      then show ?thesis using q Some True by (simp add: first_pass_snoc)
    qed
  qed
qed

lemma count_best_filter:
  "count_best xs best owner n =
     n + length (filter (\<lambda>item. case score item of
                                  Some sc \<Rightarrow> entryOwner item = owner \<and> \<not> isUnsolved item \<and>
                                    (case map_of best (instanceName item) of
                                       Some b \<Rightarrow> js_eq sc b | None \<Rightarrow> False)
                                | None \<Rightarrow> False) xs)"
  by (induction xs arbitrary: n) (auto split: option.splits)

lemma map_of_map_entries:
  assumes "\<And>e. fst (f e) = fst e"
  shows "map_of (map f al) k = (case map_of al k of None \<Rightarrow> None | Some v \<Rightarrow> Some (snd (f (k, v))))"
proof (induction al)
  case Nil
  then show ?case by simp
next
  case (Cons e al)
  obtain a b where e: "e = (a, b)" by (cases e)
  have "f (a, b) = (a, snd (f (a, b)))"
    using assms [of "(a, b)"] by (cases "f (a, b)") simp
  then show ?case using Cons e by (cases "f (a, b)") (auto split: option.splits)
qed

lemma fst_second_pass_entry: "fst (second_pass_entry P data best e) = fst e"
  by (cases e) (simp add: second_pass_entry_def Let_def)

lemma metrics_lookup:
  "map_of (calculateUnifiedMetrics P data) owner =
     (case map_of (fst (first_pass P data)) owner of
        None \<Rightarrow> None
      | Some p \<Rightarrow> Some (snd (second_pass_entry P data (snd (first_pass P data)) (owner, p))))"
  by (simp add: calculateUnifiedMetrics_def split_beta
      map_of_map_entries [OF fst_second_pass_entry])

lemma metrics_fields:
  assumes "map_of (calculateUnifiedMetrics P data) owner = Some m"
  shows "solvedCount m = length (filter (\<lambda>r. entryOwner r = owner \<and> solved r) data)"
    and "totalProblems m = length (filter (\<lambda>r. entryOwner r = owner) data)"
    and "bestSolutions m = length (filter (counted P data owner) data)"
    and "avgScore m = (if solvedCount m > 0
                       then js_div P (totalScore m) (Fin (of_nat (solvedCount m))) else PosInf)"
proof -
  from assms obtain p where p: "map_of (fst (first_pass P data)) owner = Some p"
    and m: "m = snd (second_pass_entry P data (snd (first_pass P data)) (owner, p))"
    by (auto simp: metrics_lookup split: option.splits)
  from first_pass_owner [where P = P and data = data and owner = owner] p have inv: "bestSolutions p = 0"
    "solvedCount p = length (filter (\<lambda>r. entryOwner r = owner \<and> solved r) data)"
    "totalProblems p = length (filter (\<lambda>r. entryOwner r = owner) data)" by simp_all
  show "solvedCount m = length (filter (\<lambda>r. entryOwner r = owner \<and> solved r) data)"
    using inv(2) by (simp add: m second_pass_entry_def Let_def)
  show "totalProblems m = length (filter (\<lambda>r. entryOwner r = owner) data)"
    using inv(3) by (simp add: m second_pass_entry_def Let_def)
  have "counted P data owner = (\<lambda>item. case score item of
                                  Some sc \<Rightarrow> entryOwner item = owner \<and> \<not> isUnsolved item \<and>
                                    (case map_of (snd (first_pass P data)) (instanceName item) of
                                       Some b \<Rightarrow> js_eq sc b | None \<Rightarrow> False)
                                | None \<Rightarrow> False)"
    by (rule ext) (simp add: counted_def)
  then show "bestSolutions m = length (filter (counted P data owner) data)"
    using inv(1) by (simp add: m second_pass_entry_def Let_def count_best_filter)
  show "avgScore m = (if solvedCount m > 0
                       then js_div P (totalScore m) (Fin (of_nat (solvedCount m))) else PosInf)"
    by (simp add: m second_pass_entry_def Let_def)
qed

lemma metrics_defined:
  "item \<in> set data \<Longrightarrow> \<exists>m. map_of (calculateUnifiedMetrics P data) (entryOwner item) = Some m"
  using first_pass_owner [where P = P and data = data and owner = "entryOwner item"]
  by (auto simp: metrics_lookup split: option.splits)

lemma mem_solved_scores:
  "item \<in> set data \<Longrightarrow> score item = Some sc \<Longrightarrow> \<not> isUnsolved item \<Longrightarrow>
   sc \<in> set (solved_scores data (instanceName item))"
  by (force simp: solved_scores_def)

lemma achieves_best_counted:
  assumes "achieves_best data owner item"
    and "hd (solved_scores data (instanceName item)) \<noteq> NaN"
  shows "counted P data owner item"
proof -
  from assms(1) obtain sc where sc: "score item = Some sc" "entryOwner item = owner"
    "\<not> isUnsolved item" "sc \<in> set (solved_scores data (instanceName item))" "sc \<noteq> NaN"
    "list_all (\<lambda>x. \<not> js_lt x sc) (solved_scores data (instanceName item))"
    by (auto simp: achieves_best_def solved_def global_minimum_def)
  have "foldl min_step None (solved_scores data (instanceName item)) = Some sc"
    using sc(4,5,6) assms(2) by (rule running_min_complete)
  then show ?thesis using sc(1-3,5) by (simp add: counted_def map_of_best js_eq_def)
qed

lemma counted_achieves_best:
  assumes "item \<in> set data" and "counted P data owner item"
  shows "achieves_best data owner item \<and> hd (solved_scores data (instanceName item)) \<noteq> NaN"
proof -
  let ?scs = "solved_scores data (instanceName item)"
  from assms(2) obtain sc b where sc: "score item = Some sc" "entryOwner item = owner"
    "\<not> isUnsolved item" "foldl min_step None ?scs = Some b" "js_eq sc b"
    by (auto simp: counted_def map_of_best split: option.splits)
  have eq: "b = sc" and nn: "sc \<noteq> NaN" using sc(5) by (auto simp: js_eq_def)
  have mem: "sc \<in> set ?scs"
    using assms(1) sc(1,3) by (rule mem_solved_scores)
  then have ne: "?scs \<noteq> []" by auto
  have hd: "hd ?scs \<noteq> NaN"
  proof
    assume "hd ?scs = NaN"
    from running_min_NaN_first [OF ne this] sc(4) eq nn show False by simp
  qed
  from running_min_sound [OF ne hd] sc(4) eq
  have "list_all (\<lambda>x. \<not> js_lt x sc) ?scs" by auto
  then show ?thesis using sc(1-3) mem nn hd
    by (simp add: achieves_best_def solved_def global_minimum_def)
qed

text \<open>
  What the second pass counts for an owner: the owner's solved records whose score is the
  global minimum of their instance, on the instances whose first solved score is a number.
\<close>

lemma bestSolutions_records:
  assumes "map_of (calculateUnifiedMetrics P data) owner = Some m"
  shows "bestSolutions m =
           length (filter (\<lambda>item. achieves_best data owner item
                                   \<and> hd (solved_scores data (instanceName item)) \<noteq> NaN) data)"
proof -
  have "filter (counted P data owner) data =
          filter (\<lambda>item. achieves_best data owner item
                          \<and> hd (solved_scores data (instanceName item)) \<noteq> NaN) data"
    by (rule filter_cong) (auto dest: counted_achieves_best achieves_best_counted)
  then show ?thesis using metrics_fields(3) [OF assms] by simp
qed

subsection \<open>The claims on the Metrics Engine\<close>

text \<open>
  C5. The code counts records, where the claim counts instances. A log whose one solved
  line is there twice is parsed into two records of its owner for one instance, both with
  the best score: \<open>bestSolutions\<close> is 2, and the distinct instances on which the owner has
  the best score are one.
\<close>

theorem bestSolutions_repeated_line:
  "parseLogEntries example_platform example_log_repeated ''a.log'' = example_repeated_records
   \<and> map (\<lambda>e. (fst e, bestSolutions (snd e)))
         (calculateUnifiedMetrics example_platform example_repeated_records)
       = [(''a.log'', 2)]
   \<and> best_instances example_repeated_records ''a.log'' = [''50_5_1.vrp'']"
proof -
  have parsed: "parseLogEntries example_platform example_log_repeated ''a.log''
                  = example_repeated_records"
    by code_simp
  have counted: "map (\<lambda>e. (fst e, bestSolutions (snd e)))
                   (calculateUnifiedMetrics example_platform example_repeated_records)
                 = [(''a.log'', 2)]"
    by code_simp
  have instances: "best_instances example_repeated_records ''a.log'' = [''50_5_1.vrp'']"
    by code_simp
  from parsed counted instances show ?thesis by (intro conjI)
qed

text \<open>
  C6, as the code has it. On an instance whose first solved score in the store is a number
  (not NaN), every record whose score equals the global minimum score of the instance is
  counted for its owner: the second pass increments the owner's \<open>bestSolutions\<close> at that
  record, and \<open>bestSolutions\<close> is the number of records at which it increments. This
  holds for each of the owners that tie on the instance, so none of them loses the credit
  to another.
\<close>

theorem every_best_record_counted:
  assumes "item \<in> set data"
    and "achieves_best data (entryOwner item) item"
    and "hd (solved_scores data (instanceName item)) \<noteq> NaN"
  shows "\<exists>m. map_of (calculateUnifiedMetrics P data) (entryOwner item) = Some m
           \<and> counted P data (entryOwner item) item
           \<and> bestSolutions m = length (filter (counted P data (entryOwner item)) data)
           \<and> 1 \<le> bestSolutions m"
proof -
  from metrics_defined [OF assms(1)] obtain m where
    m: "map_of (calculateUnifiedMetrics P data) (entryOwner item) = Some m" by blast
  have c: "counted P data (entryOwner item) item"
    using assms(2,3) by (rule achieves_best_counted)
  have b: "bestSolutions m = length (filter (counted P data (entryOwner item)) data)"
    by (rule metrics_fields(3) [OF m])
  have "item \<in> set (filter (counted P data (entryOwner item)) data)"
    using assms(1) c by simp
  then have "filter (counted P data (entryOwner item)) data \<noteq> []"
    by (metis empty_iff empty_set)
  then have "1 \<le> length (filter (counted P data (entryOwner item)) data)"
    by (cases "filter (counted P data (entryOwner item)) data") simp_all
  then have "1 \<le> bestSolutions m" by (simp only: b)
  with m c b show ?thesis by blast
qed

theorem every_best_record_counted_witness:
  "achieves_best example_tie ''A'' (example_item ''a.log'' ''A'' ''50_5_1.vrp'' (Some (Fin 5)))
   \<and> achieves_best example_tie ''B'' (example_item ''b.log'' ''B'' ''50_5_1.vrp'' (Some (Fin 5)))
   \<and> hd (solved_scores example_tie ''50_5_1.vrp'') = Fin 5
   \<and> (case map_of (calculateUnifiedMetrics example_platform example_tie) ''A'' of
         Some m \<Rightarrow> 1 \<le> bestSolutions m | None \<Rightarrow> False)
   \<and> (case map_of (calculateUnifiedMetrics example_platform example_tie) ''B'' of
         Some m \<Rightarrow> 1 \<le> bestSolutions m | None \<Rightarrow> False)"
proof -
  let ?a = "example_item ''a.log'' ''A'' ''50_5_1.vrp'' (Some (Fin 5))"
  let ?b = "example_item ''b.log'' ''B'' ''50_5_1.vrp'' (Some (Fin 5))"
  have oa: "entryOwner ?a = ''A''" and ob: "entryOwner ?b = ''B''"
    and ia: "instanceName ?a = ''50_5_1.vrp''" and ib: "instanceName ?b = ''50_5_1.vrp''"
    by (simp_all add: example_item_def make_item_def)
  have ma: "?a \<in> set example_tie" and mb: "?b \<in> set example_tie"
    by (simp_all add: example_tie_def)
  have ba: "achieves_best example_tie ''A'' ?a" by code_simp
  have bb: "achieves_best example_tie ''B'' ?b" by code_simp
  have h: "hd (solved_scores example_tie ''50_5_1.vrp'') = Fin 5" by code_simp
  show ?thesis
    using every_best_record_counted [of ?a example_tie example_platform]
          every_best_record_counted [of ?b example_tie example_platform]
          ma mb ba bb h
    by (auto simp: oa ob ia ib)
qed

text \<open>
  C6 as the spec states it fails when the first solved score of the instance is NaN, as
  for a log line with the result \<open>abc\<close>: the first pass keeps NaN as the best score of the
  instance, no score equals it, and the two owners that tie on the minimum 5 both get
  \<open>bestSolutions\<close> 0.
\<close>

theorem every_best_record_counted_counterexample:
  "achieves_best example_NaN_first ''b.log''
     (example_item ''b.log'' ''b.log'' ''50_5_1.vrp'' (Some (Fin 5)))
   \<and> achieves_best example_NaN_first ''c.log''
       (example_item ''c.log'' ''c.log'' ''50_5_1.vrp'' (Some (Fin 5)))
   \<and> map (\<lambda>e. (fst e, bestSolutions (snd e)))
         (calculateUnifiedMetrics example_platform example_NaN_first)
       = [(''a.log'', 0), (''b.log'', 0), (''c.log'', 0)]"
  by code_simp

text \<open>
  C7. For an owner of the result, \<open>solvedCount\<close> is 0 exactly when none of the owner's
  records is solved, and then \<open>avgScore\<close> is the infinity sentinel and \<open>bestSolutions\<close>
  is 0.
\<close>

theorem no_solved_record_metrics:
  assumes "map_of (calculateUnifiedMetrics P data) owner = Some m"
  shows "(solvedCount m = 0 \<longleftrightarrow> (\<forall>r \<in> set data. entryOwner r = owner \<longrightarrow> \<not> solved r))
         \<and> (solvedCount m = 0 \<longrightarrow> avgScore m = PosInf \<and> bestSolutions m = 0)"
proof -
  have sc: "solvedCount m = length (filter (\<lambda>r. entryOwner r = owner \<and> solved r) data)"
    by (rule metrics_fields(1) [OF assms])
  have iff: "solvedCount m = 0 \<longleftrightarrow> (\<forall>r \<in> set data. entryOwner r = owner \<longrightarrow> \<not> solved r)"
    by (auto simp: sc filter_empty_conv)
  have avg: "solvedCount m = 0 \<longrightarrow> avgScore m = PosInf"
    by (simp add: metrics_fields(4) [OF assms])
  have best: "bestSolutions m = 0" if "solvedCount m = 0"
  proof -
    have "\<not> counted P data owner r" if "r \<in> set data" for r
      using \<open>solvedCount m = 0\<close> that iff
      by (auto simp: counted_def solved_def split: option.splits)
    then have "filter (counted P data owner) data = []"
      by (simp add: filter_empty_conv)
    then show ?thesis by (simp add: metrics_fields(3) [OF assms])
  qed
  from iff avg best show ?thesis by blast
qed

theorem no_solved_record_metrics_witness:
  "filter (\<lambda>r. entryOwner r = ''C'' \<and> solved r) example_tie = []
   \<and> (case map_of (calculateUnifiedMetrics example_platform example_tie) ''C'' of
         Some m \<Rightarrow> solvedCount m = 0 \<and> avgScore m = PosInf \<and> bestSolutions m = 0
       | None \<Rightarrow> False)"
proof -
  have e: "filter (\<lambda>r. entryOwner r = ''C'' \<and> solved r) example_tie = []" by code_simp
  then have u: "\<forall>r \<in> set example_tie. entryOwner r = ''C'' \<longrightarrow> \<not> solved r"
    by (simp add: filter_empty_conv)
  obtain m where m: "map_of (calculateUnifiedMetrics example_platform example_tie) ''C'' = Some m"
    using metrics_defined [of "example_item ''c.log'' ''C'' ''50_5_1.vrp'' None" example_tie
        example_platform]
    by (auto simp: example_tie_def example_item_def make_item_def)
  show ?thesis
    using no_solved_record_metrics [OF m] u e m by simp
qed

section \<open>Log Format Parser: properties\<close>

lemma make_item_id:
  "make_item d i src owner inst sc tm sol u ty \<lparr> item_id := j \<rparr>
     = make_item d j src owner inst sc tm sol u ty"
  by (simp add: make_item_def)

lemma parse_log_line_id:
  "parse_log_line P fn k l =
     (case parse_log_line P fn k0 l of
        Pushed it \<Rightarrow> Pushed (it \<lparr> item_id := uuidv4 P k \<rparr>)
      | Skipped \<Rightarrow> Skipped
      | Caught e \<Rightarrow> Caught e)"
  unfolding parse_log_line_def Let_def
  by (simp add: make_item_id split: option.split sum.split jsval.split)

lemma parse_log_line_syntax_error:
  "JSON_parse P l = None \<Longrightarrow> parse_log_line P fn k l = Skipped \<or> parse_log_line P fn k l = Caught SyntaxError"
  by (simp add: parse_log_line_def)

lemma log_loop_append:
  "log_loop P fn (xs @ ys) acc = log_loop P fn ys (log_loop P fn xs acc)"
  by (induction xs arbitrary: acc) simp_all

lemma log_loop_syntax_error:
  "JSON_parse P b = None \<Longrightarrow> log_loop P fn (b # ys) acc = log_loop P fn ys acc"
  using parse_log_line_syntax_error [of P b fn "length acc"] by auto

lemma without_id_line:
  "map without_id (case parse_log_line P fn k l of Pushed item \<Rightarrow> acc @ [item] | Skipped \<Rightarrow> acc | Caught x \<Rightarrow> acc)
     = map without_id acc @ map without_id (line_items P fn l)"
  by (subst parse_log_line_id [of P fn k l 0])
     (simp add: line_items_def without_id_def split: line_result.split)

lemma log_loop_items:
  "map without_id (log_loop P fn ls acc)
     = map without_id acc @ concat (map (\<lambda>l. map without_id (line_items P fn l)) ls)"
proof (induction ls arbitrary: acc)
  case Nil
  then show ?case by simp
next
  case (Cons l ls)
  show ?case
    by (simp only: log_loop.simps Cons.IH without_id_line) simp
qed


text \<open>
  C8. The parser returns a list for every input: an exception in a line is caught in the
  round of that line. A line that \<open>JSON.parse\<close> rejects is dropped, and the result is the
  one of the lines before and after it alone. Such a line contributes nothing; up to the
  identifiers, the result is what each line contributes by itself, in input order. When
  \<open>JSON.parse\<close> rejects every line, the result is the empty list.
\<close>

theorem malformed_lines_dropped:
  "(\<forall>xs b ys. log_lines content = xs @ b # ys \<and> JSON_parse P b = None
       \<longrightarrow> parseLogEntries P content fn = log_loop P fn (xs @ ys) [])
   \<and> (\<forall>l. JSON_parse P l = None \<longrightarrow> line_items P fn l = [])
   \<and> map without_id (parseLogEntries P content fn)
       = concat (map (\<lambda>l. map without_id (line_items P fn l)) (log_lines content))
   \<and> ((\<forall>l \<in> set (log_lines content). JSON_parse P l = None)
       \<longrightarrow> parseLogEntries P content fn = [])"
proof (intro conjI allI impI)
  fix xs b ys
  assume a: "log_lines content = xs @ b # ys \<and> JSON_parse P b = None"
  then show "parseLogEntries P content fn = log_loop P fn (xs @ ys) []"
    by (simp add: parseLogEntries_def log_loop_append log_loop_syntax_error
        del: log_loop.simps)
next
  fix l
  assume "JSON_parse P l = None"
  then show "line_items P fn l = []"
    using parse_log_line_syntax_error [of P l fn 0] by (auto simp: line_items_def)
next
  show "map without_id (parseLogEntries P content fn)
       = concat (map (\<lambda>l. map without_id (line_items P fn l)) (log_lines content))"
    by (simp add: parseLogEntries_def log_loop_items)
next
  assume a: "\<forall>l \<in> set (log_lines content). JSON_parse P l = None"
  have "\<forall>l \<in> set (log_lines content). line_items P fn l = []"
  proof
    fix l assume "l \<in> set (log_lines content)"
    with a have "JSON_parse P l = None" by blast
    then show "line_items P fn l = []"
      using parse_log_line_syntax_error [of P l fn 0] by (auto simp: line_items_def)
  qed
  then have "concat (map (\<lambda>l. map without_id (line_items P fn l)) (log_lines content)) = []"
    by simp
  then have "map without_id (parseLogEntries P content fn) = []"
    by (simp only: parseLogEntries_def log_loop_items) simp
  then show "parseLogEntries P content fn = []" by simp
qed

theorem malformed_lines_dropped_witness:
  "log_lines example_log = [example_line_solved, example_line_malformed, example_line_unsolved]
   \<and> JSON_parse example_platform example_line_malformed = None
   \<and> map instanceName (parseLogEntries example_platform example_log ''s.log'')
       = [''50_5_1.vrp'', ''50_5_2.vrp'']
   \<and> parseLogEntries example_platform example_line_malformed ''s.log'' = []"
proof -
  have l: "log_lines example_log = [example_line_solved] @ example_line_malformed # [example_line_unsolved]"
    by code_simp
  have b: "JSON_parse example_platform example_line_malformed = None" by code_simp
  have r: "map instanceName (log_loop example_platform ''s.log'' ([example_line_solved] @ [example_line_unsolved]) [])
             = [''50_5_1.vrp'', ''50_5_2.vrp'']" by code_simp
  have l2: "log_lines example_line_malformed = [example_line_malformed]" by code_simp
  from malformed_lines_dropped [of example_log example_platform "''s.log''"] l b
  have 1: "parseLogEntries example_platform example_log ''s.log''
             = log_loop example_platform ''s.log'' ([example_line_solved] @ [example_line_unsolved]) []"
    by blast
  from malformed_lines_dropped [of example_line_malformed example_platform "''s.log''"] l2 b
  have 2: "parseLogEntries example_platform example_line_malformed ''s.log'' = []"
    by simp
  show ?thesis using l b 2 by (simp only: 1 r) simp
qed


section \<open>Leaderboard Format Parser: properties\<close>

lemma takeWhile_until:
  "list_all P g \<Longrightarrow> \<not> P c \<Longrightarrow> takeWhile P (g @ c # rest) = g"
proof -
  assume a: "list_all P g" and b: "\<not> P c"
  have "takeWhile P (g @ c # rest) = takeWhile P g"
    using b by (rule takeWhile_tail)
  also have "\<dots> = g" using a by (auto simp: takeWhile_eq_all_conv list_all_iff)
  finally show ?thesis .
qed

lemma dropWhile_until:
  "list_all P g \<Longrightarrow> \<not> P c \<Longrightarrow> dropWhile P (g @ c # rest) = c # rest"
  by (simp add: dropWhile_append2 list_all_iff)

lemma not_time_char_bracket: "\<not> is_time_char CHR '']''"
  by (simp add: is_time_char_def is_digit_def)

lemma match_bracket_one_space:
  assumes "g \<noteq> []" and "list_all is_time_char g"
  shows "match_bracket (CHR '' '' # CHR ''['' # g @ CHR '']'' # rest) = Some (g, rest)"
proof -
  have ws: "dropWhile is_ws (CHR '' '' # CHR ''['' # g @ CHR '']'' # rest) = CHR ''['' # g @ CHR '']'' # rest"
    by (simp add: is_ws_def)
  show ?thesis
    unfolding match_bracket_def ws
    using assms(1)
    by (simp add: Let_def takeWhile_until [OF assms(2) not_time_char_bracket]
        dropWhile_until [OF assms(2) not_time_char_bracket])
qed

lemma match_unsolved_time_one_space:
  assumes "g \<noteq> []" and "list_all is_time_char g"
  shows "match_unsolved_time (''-- ['' @ g @ '']'') = Some g"
  using match_bracket_one_space [OF assms, of "[]"]
  by (simp add: startsWith_def)

lemma parse_cell_dashes: "parse_cell_content P ''--'' = (None, None, True)"
  by (simp add: parse_cell_content_def startsWith_def match_bracket_def)

lemma parse_cell_empty: "parse_cell_content P [] = (None, None, True)"
  by (simp add: parse_cell_content_def)

lemma parse_cell_time:
  assumes "g \<noteq> []" and "list_all is_time_char g"
  shows "parse_cell_content P (''-- ['' @ g @ '']'') = (None, Some (parseFloat_str P g), True)"
proof -
  have "startsWith (''-- ['' @ g @ '']'') ''-- [''" by (simp add: startsWith_def)
  then show ?thesis
    by (simp only: parse_cell_content_def match_unsolved_time_one_space [OF assms]) simp
qed

lemma parse_cell_prefix:
  "startsWith s ''-- ['' \<Longrightarrow> \<exists>tm. parse_cell_content P s = (None, tm, True)"
  by (simp add: parse_cell_content_def split: option.split)


lemma leaderboard_cell_item:
  assumes "map_of (entry_cells entry) col = Some v" and "v \<noteq> JUndefined" and "v \<noteq> JNull"
    and "ToString P v = Inr str" and "parse_cell_content P (trim str) = (sc, tm, u)"
  shows "\<exists>it. leaderboard_cell P src owner entry col k = Inr (Some it)
           \<and> isUnsolved it = u \<and> score it = sc \<and> time it = tm"
  using assms by (simp add: leaderboard_cell_def entry_property_def Let_def make_item_def)

text \<open>
  A column named like a member that every object inherits: the cell read is the inherited
  function, its text matches neither pattern, and the parser pushes an unsolved record.
\<close>

lemma inherited_member_cell:
  "(case leaderboard_cell example_platform ''lb.html'' ''Ann'' example_entry ''constructor'' 0 of
      Inr (Some it) \<Rightarrow> isUnsolved it \<and> score it = None \<and> time it = None
    | _ \<Rightarrow> False)"
  by code_simp

text \<open>
  C4, as the code has it. A cell that is present and whose trimmed text is \<open>--\<close> or empty
  gives an unsolved record with no score and no time. A cell whose trimmed text is
  \<open>-- [g]\<close>, with exactly one space and \<open>g\<close> a non-empty run of digits and dots, gives an
  unsolved record with no score and the time \<open>parseFloat(g)\<close>. Every cell whose trimmed
  text starts with \<open>-- [\<close> gives an unsolved record with no score.
\<close>

theorem unsolved_cells:
  assumes "map_of (entry_cells entry) col = Some v" and "v \<noteq> JUndefined" and "v \<noteq> JNull"
    and "ToString P v = Inr str"
  shows "(trim str = ''--'' \<or> trim str = [] \<longrightarrow>
            (\<exists>it. leaderboard_cell P src owner entry col k = Inr (Some it)
                  \<and> isUnsolved it \<and> score it = None \<and> time it = None))
         \<and> (\<forall>g. g \<noteq> [] \<and> list_all is_time_char g \<and> trim str = ''-- ['' @ g @ '']'' \<longrightarrow>
            (\<exists>it. leaderboard_cell P src owner entry col k = Inr (Some it)
                  \<and> isUnsolved it \<and> score it = None \<and> time it = Some (parseFloat_str P g)))
         \<and> (startsWith (trim str) ''-- ['' \<longrightarrow>
            (\<exists>it. leaderboard_cell P src owner entry col k = Inr (Some it)
                  \<and> isUnsolved it \<and> score it = None))"
proof (intro conjI allI impI)
  assume "trim str = ''--'' \<or> trim str = []"
  then have "parse_cell_content P (trim str) = (None, None, True)"
    using parse_cell_dashes [of P] parse_cell_empty [of P] by auto
  from leaderboard_cell_item [OF assms this, of src owner k]
  show "\<exists>it. leaderboard_cell P src owner entry col k = Inr (Some it)
                  \<and> isUnsolved it \<and> score it = None \<and> time it = None" by auto
next
  fix g
  assume g: "g \<noteq> [] \<and> list_all is_time_char g \<and> trim str = ''-- ['' @ g @ '']''"
  then have "parse_cell_content P (trim str) = (None, Some (parseFloat_str P g), True)"
    using parse_cell_time [of g P] by simp
  from leaderboard_cell_item [OF assms this, of src owner k]
  show "\<exists>it. leaderboard_cell P src owner entry col k = Inr (Some it)
                  \<and> isUnsolved it \<and> score it = None \<and> time it = Some (parseFloat_str P g)"
    by auto
next
  assume "startsWith (trim str) ''-- [''"
  from parse_cell_prefix [OF this, of P] obtain tm where
    "parse_cell_content P (trim str) = (None, tm, True)" by blast
  from leaderboard_cell_item [OF assms this, of src owner k]
  show "\<exists>it. leaderboard_cell P src owner entry col k = Inr (Some it)
                  \<and> isUnsolved it \<and> score it = None" by auto
qed

theorem unsolved_cells_witness:
  "(case leaderboard_cell example_platform ''lb.html'' ''Ann'' example_entry ''50_5_1.vrp'' 0 of
      Inr (Some it) \<Rightarrow> isUnsolved it \<and> score it = None \<and> time it = Some (Fin (11 / 2))
    | _ \<Rightarrow> False)"
proof -
  have c: "map_of (entry_cells example_entry) ''50_5_1.vrp'' = Some (JStr ''-- [5.5]'')"
    by code_simp
  have s: "ToString example_platform (JStr ''-- [5.5]'') = Inr ''-- [5.5]''" by simp
  have t: "trim ''-- [5.5]'' = ''-- ['' @ ''5.5'' @ '']''" by code_simp
  have g: "''5.5'' \<noteq> [] \<and> list_all is_time_char ''5.5''" by code_simp
  have f: "parseFloat_str example_platform ''5.5'' = Fin (11 / 2)" by code_simp
  from unsolved_cells [OF c _ _ s, of "''lb.html''" "''Ann''" 0] t g
  have "\<exists>it. leaderboard_cell example_platform ''lb.html'' ''Ann'' example_entry ''50_5_1.vrp'' 0
              = Inr (Some it)
            \<and> isUnsolved it \<and> score it = None
            \<and> time it = Some (parseFloat_str example_platform ''5.5'')"
    by blast
  then show ?thesis by (auto simp: f)
qed

text \<open>
  C4 as the spec states it fails: \<open>--[5.5]\<close> matches the spec's pattern, with no space
  before the bracket, but does not start with \<open>-- [\<close>; the parser takes \<open>--\<close> for a score
  and returns a record that is not unsolved, with the score NaN.
\<close>

theorem unsolved_cells_counterexample:
  "spec_unsolved_pattern ''--[5.5]'' = Some ''5.5''
   \<and> parse_cell_content example_platform ''--[5.5]'' = (Some NaN, Some (Fin (11 / 2)), False)
   \<and> (case leaderboard_cell example_platform ''lb.html'' ''Ann'' example_entry ''50_5_2.vrp'' 0 of
        Inr (Some it) \<Rightarrow> \<not> isUnsolved it \<and> score it = Some NaN
      | _ \<Rightarrow> False)"
  by code_simp


subsection \<open>The records of both parsers\<close>














section \<open>Outlier and Insight Analyzer: properties\<close>

text \<open>
  C10. The observations depend on the records only: for any two values of the \<open>owners\<close>
  argument the result is the same.
\<close>

theorem outliers_ignore_owners:
  "findProblemOutliers P unifiedData owners = findProblemOutliers P unifiedData owners'"
  by (simp add: findProblemOutliers_def)

theorem outliers_ignore_owners_witness:
  "findProblemOutliers example_platform example_tie [''A'', ''B'', ''C'']
     = [\<lparr> outlier_instance = ''50_5_1.vrp'', observation = ''Solved by: A, B. Unsolved by: C.'' \<rparr>]"
proof -
  have "findProblemOutliers example_platform example_tie []
     = [\<lparr> outlier_instance = ''50_5_1.vrp'', observation = ''Solved by: A, B. Unsolved by: C.'' \<rparr>]"
    by code_simp
  then show ?thesis
    using outliers_ignore_owners [of example_platform example_tie "[''A'', ''B'', ''C'']" "[]"]
    by simp
qed


end
